theory Spec2Isabelle
  imports Complex_Main "HOL-Library.Multiset" "HOL-Library.AList"
begin

section \<open>JavaScript numbers\<close>

text \<open>
  A JavaScript \<^verbatim>\<open>number\<close> is modelled as a real number or one of the three special
  values of IEEE arithmetic. Rounding, overflow to infinity and the sign of zero are not
  modelled: finite arithmetic is exact. Every comparison with \<open>NaN\<close> is false, as in the
  language.
\<close>

datatype jsnum = Fin real | PInf | NInf | NaN

fun isNaN :: "jsnum \<Rightarrow> bool" where
  "isNaN NaN = True"
| "isNaN _ = False"


fun jneg :: "jsnum \<Rightarrow> jsnum" where
  "jneg (Fin a) = Fin (- a)"
| "jneg PInf = NInf"
| "jneg NInf = PInf"
| "jneg NaN = NaN"

fun jadd :: "jsnum \<Rightarrow> jsnum \<Rightarrow> jsnum" where
  "jadd (Fin a) (Fin b) = Fin (a + b)"
| "jadd NaN _ = NaN"
| "jadd _ NaN = NaN"
| "jadd PInf NInf = NaN"
| "jadd NInf PInf = NaN"
| "jadd PInf _ = PInf"
| "jadd _ PInf = PInf"
| "jadd NInf _ = NInf"
| "jadd _ NInf = NInf"

definition jsub :: "jsnum \<Rightarrow> jsnum \<Rightarrow> jsnum" where
  "jsub a b = jadd a (jneg b)"

text \<open>The sign of a number: \<open>None\<close> for \<open>NaN\<close>, otherwise \<open>-1\<close>, \<open>0\<close> or \<open>1\<close>.\<close>

fun jsign :: "jsnum \<Rightarrow> int option" where
  "jsign (Fin a) = Some (if a < 0 then - 1 else if a = 0 then 0 else 1)"
| "jsign PInf = Some 1"
| "jsign NInf = Some (- 1)"
| "jsign NaN = None"

definition inf_of_sign :: "int \<Rightarrow> jsnum" where
  "inf_of_sign s = (if s = 0 then NaN else if 0 < s then PInf else NInf)"

fun jmul :: "jsnum \<Rightarrow> jsnum \<Rightarrow> jsnum" where
  "jmul (Fin a) (Fin b) = Fin (a * b)"
| "jmul a b = (case (jsign a, jsign b) of
       (Some s, Some t) \<Rightarrow> inf_of_sign (s * t)
     | _ \<Rightarrow> NaN)"

fun jdiv :: "jsnum \<Rightarrow> jsnum \<Rightarrow> jsnum" where
  "jdiv (Fin a) (Fin b) = (if b = 0 then inf_of_sign (if a < 0 then - 1 else if a = 0 then 0 else 1)
                           else Fin (a / b))"
| "jdiv (Fin a) PInf = Fin 0"
| "jdiv (Fin a) NInf = Fin 0"
| "jdiv NaN _ = NaN"
| "jdiv _ NaN = NaN"
| "jdiv PInf (Fin b) = (if b < 0 then NInf else PInf)"
| "jdiv NInf (Fin b) = (if b < 0 then PInf else NInf)"
| "jdiv _ _ = NaN"

fun jabs :: "jsnum \<Rightarrow> jsnum" where
  "jabs (Fin a) = Fin \<bar>a\<bar>"
| "jabs PInf = PInf"
| "jabs NInf = PInf"
| "jabs NaN = NaN"

fun jlt :: "jsnum \<Rightarrow> jsnum \<Rightarrow> bool" where
  "jlt (Fin a) (Fin b) = (a < b)"
| "jlt NaN _ = False"
| "jlt _ NaN = False"
| "jlt PInf _ = False"
| "jlt _ NInf = False"
| "jlt _ _ = True"

definition jgt :: "jsnum \<Rightarrow> jsnum \<Rightarrow> bool" where
  "jgt a b = jlt b a"

fun jle :: "jsnum \<Rightarrow> jsnum \<Rightarrow> bool" where
  "jle (Fin a) (Fin b) = (a \<le> b)"
| "jle NaN _ = False"
| "jle _ NaN = False"
| "jle NInf _ = True"
| "jle _ PInf = True"
| "jle _ _ = False"

definition jge :: "jsnum \<Rightarrow> jsnum \<Rightarrow> bool" where
  "jge a b = jle b a"

text \<open>Strict equality \<^verbatim>\<open>===\<close> on numbers: \<open>NaN\<close> equals nothing.\<close>

definition jeq :: "jsnum \<Rightarrow> jsnum \<Rightarrow> bool" where
  "jeq a b = (a = b \<and> a \<noteq> NaN)"

text \<open>\<^verbatim>\<open>Math.min\<close> and \<^verbatim>\<open>Math.max\<close> of two arguments return \<open>NaN\<close> if either is.\<close>

definition jmin :: "jsnum \<Rightarrow> jsnum \<Rightarrow> jsnum" where
  "jmin a b = (if isNaN a \<or> isNaN b then NaN else if jle a b then a else b)"

definition jmax :: "jsnum \<Rightarrow> jsnum \<Rightarrow> jsnum" where
  "jmax a b = (if isNaN a \<or> isNaN b then NaN else if jle a b then b else a)"

text \<open>Truthiness of a number: \<open>0\<close> and \<open>NaN\<close> are falsy.\<close>

definition truthy :: "jsnum \<Rightarrow> bool" where
  "truthy a = (a \<noteq> NaN \<and> a \<noteq> Fin 0)"

text \<open>
  Reading a numeric array in a numeric context: an index out of range reads
  \<^verbatim>\<open>undefined\<close>, which arithmetic and comparisons turn into \<open>NaN\<close>.
\<close>

definition numAt :: "jsnum list \<Rightarrow> nat \<Rightarrow> jsnum" where
  "numAt xs i = (if i < length xs then xs ! i else NaN)"

section \<open>Segment lookup\<close>

record segment =
  seg_i :: nat
  seg_p :: jsnum
  seg_constant :: bool

text \<open>The \<^verbatim>\<open>while\<close> loop of \<^verbatim>\<open>getSegmentInfo\<close>, started at index \<open>i\<close>.\<close>

function segLoop :: "jsnum \<Rightarrow> jsnum list \<Rightarrow> nat \<Rightarrow> nat" where
  "segLoop val input i =
     (if i < length input - 1 \<and> jge val (numAt input (i + 1))
      then segLoop val input (i + 1) else i)"
  by pat_completeness auto
termination
  by (relation "measure (\<lambda>(val, input, i). length input - 1 - i)") auto

declare segLoop.simps [simp del]

definition getSegmentInfo :: "jsnum \<Rightarrow> jsnum list \<Rightarrow> segment" where
  "getSegmentInfo val input =
     (let len = length input in
      if len = 0 then \<lparr>seg_i = 0, seg_p = Fin 0, seg_constant = True\<rparr>
      else if len = 1 \<or> jle val (numAt input 0) then \<lparr>seg_i = 0, seg_p = Fin 0, seg_constant = True\<rparr>
      else if jge val (numAt input (len - 1)) then \<lparr>seg_i = len - 1, seg_p = Fin 0, seg_constant = True\<rparr>
      else
        let i = segLoop val input 0;
            gap = jsub (numAt input (i + 1)) (numAt input i);
            p = (if jgt gap (Fin 0.001) then jdiv (jsub val (numAt input i)) gap else Fin 0)
        in \<lparr>seg_i = i, seg_p = p, seg_constant = False\<rparr>)"

section \<open>Coordinate math (AniviewMath)\<close>

text \<open>
  Page identifiers and matrix indices are integers; viewport sizes and overlap ratios are
  numbers. \<^verbatim>\<open>overlaps[i] || 0\<close> reads \<open>0\<close> for a missing, zero or \<open>NaN\<close> entry.
\<close>

record matrixPos =
  pos_r :: nat
  pos_c :: nat

record point =
  px :: jsnum
  py :: jsnum

record dims =
  width :: jsnum
  height :: jsnum
  offsetX :: jsnum
  offsetY :: jsnum

definition or_zero :: "jsnum option \<Rightarrow> jsnum" where
  "or_zero v = (case v of None \<Rightarrow> Fin 0 | Some n \<Rightarrow> if truthy n then n else Fin 0)"

definition nth_opt :: "'a list \<Rightarrow> nat \<Rightarrow> 'a option" where
  "nth_opt xs i = (if i < length xs then Some (xs ! i) else None)"

definition rowLengthOf :: "nat list list \<Rightarrow> nat" where
  "rowLengthOf layout = max 1 (case layout of [] \<Rightarrow> 0 | row # _ \<Rightarrow> length row)"

definition pageIdToMatrixPos :: "int \<Rightarrow> nat list list \<Rightarrow> matrixPos" where
  "pageIdToMatrixPos pageId layout =
     (let rowLength = rowLengthOf layout;
          numRows = length layout;
          maxPage = int numRows * int rowLength - 1
      in if pageId < 0 \<or> pageId > maxPage then \<lparr>pos_r = 9999, pos_c = 9999\<rparr>
         else \<lparr>pos_r = nat (pageId div int rowLength), pos_c = nat (pageId mod int rowLength)\<rparr>)"

definition calculateAxisOffset :: "nat \<Rightarrow> nat \<Rightarrow> jsnum \<Rightarrow> jsnum list \<Rightarrow> jsnum" where
  "calculateAxisOffset from to sz overlaps =
     (if from = to then Fin 0
      else
        let direction = (if to > from then Fin 1 else Fin (- 1));
            start = min from to;
            stop = max from to;
            totalOffset = fold (\<lambda>i total. jadd total (jmul sz (jsub (Fin 1) (or_zero (nth_opt overlaps i)))))
                            [start ..< stop] (Fin 0)
        in jmul totalOffset direction)"

definition getPageOffset :: "int \<Rightarrow> nat list list \<Rightarrow> dims \<Rightarrow> int \<Rightarrow> jsnum list \<Rightarrow> jsnum list \<Rightarrow> point" where
  "getPageOffset pageId layout contextDims defaultPage rowOverlaps colOverlaps =
     (let target = pageIdToMatrixPos pageId layout;
          origin = pageIdToMatrixPos defaultPage layout
      in \<lparr>px = calculateAxisOffset (pos_c origin) (pos_c target) (width contextDims) colOverlaps,
          py = calculateAxisOffset (pos_r origin) (pos_r target) (height contextDims) rowOverlaps\<rparr>)"

record worldBounds =
  minX :: jsnum
  maxX :: jsnum
  minY :: jsnum
  maxY :: jsnum

definition getWorldBounds :: "int list \<Rightarrow> nat list list \<Rightarrow> dims \<Rightarrow> int \<Rightarrow> jsnum list \<Rightarrow> jsnum list \<Rightarrow> worldBounds" where
  "getWorldBounds pages layout contextDims defaultPage rowOverlaps colOverlaps =
     (case pages of
        [] \<Rightarrow> \<lparr>minX = Fin 0, maxX = Fin 0, minY = Fin 0, maxY = Fin 0\<rparr>
      | p0 # ps \<Rightarrow>
          let firstOffset = getPageOffset p0 layout contextDims defaultPage rowOverlaps colOverlaps
          in fold (\<lambda>p b.
                let offset = getPageOffset p layout contextDims defaultPage rowOverlaps colOverlaps
                in \<lparr>minX = jmin (minX b) (px offset), maxX = jmax (maxX b) (px offset),
                    minY = jmin (minY b) (py offset), maxY = jmax (maxY b) (py offset)\<rparr>)
               ps
               \<lparr>minX = px firstOffset, maxX = px firstOffset, minY = py firstOffset, maxY = py firstOffset\<rparr>)"

section \<open>Layout engine (AniviewConfig)\<close>

text \<open>A page reference is a number or a semantic name.\<close>

datatype pageref = PNum int | PName string

record 'st frame =
  page :: "pageref option"
  event :: "string option"
  "value" :: "jsnum option"
  style :: "'st option"
  persistent :: "bool option"
  opacity :: "jsnum option"
  scale :: "jsnum option"
  rotate :: "jsnum option"

record 'st bakedFrame = "'st frame" +
  worldX :: jsnum
  worldY :: jsnum

record config =
  layout :: "nat list list"
  defaultPage :: int
  pageMap :: "string \<rightharpoonup> int"
  rowOverlaps :: "jsnum list"
  colOverlaps :: "jsnum list"

text \<open>
  \<^verbatim>\<open>parseInt(s, 10)\<close>: leading white space is skipped, a sign is read, then the longest
  run of decimal digits; the result is \<open>NaN\<close> (here \<open>None\<close>) when there is no digit.
\<close>

definition isSpace :: "char \<Rightarrow> bool" where
  "isSpace c = (c \<in> {CHR '' '', CHR 0x09, CHR 0x0A, CHR 0x0B, CHR 0x0C, CHR 0x0D, CHR 0xA0})"

definition isDigit :: "char \<Rightarrow> bool" where
  "isDigit c = (c \<in> set ''0123456789'')"

definition digitVal :: "char \<Rightarrow> nat" where
  "digitVal c = (of_char c :: nat) - 48"

definition digitsVal :: "string \<Rightarrow> nat" where
  "digitsVal ds = foldl (\<lambda>acc c. 10 * acc + digitVal c) 0 ds"

definition parseInt10 :: "string \<Rightarrow> int option" where
  "parseInt10 s =
     (let t = dropWhile isSpace s;
          (neg, u) = (case t of
                        c # r \<Rightarrow> if c = CHR ''-'' then (True, r) else if c = CHR ''+'' then (False, r) else (False, t)
                      | [] \<Rightarrow> (False, t));
          ds = takeWhile isDigit u
      in if ds = [] then None
         else Some (if neg then - int (digitsVal ds) else int (digitsVal ds)))"

definition resolvePageId :: "config \<Rightarrow> pageref \<Rightarrow> int" where
  "resolvePageId cfg pageId =
     (case pageId of
        PNum n \<Rightarrow> n
      | PName s \<Rightarrow>
          (case pageMap cfg s of
             Some n \<Rightarrow> n
           | None \<Rightarrow> (case parseInt10 s of None \<Rightarrow> 0 | Some n \<Rightarrow> n)))"

definition cfgPageOffset :: "config \<Rightarrow> pageref \<Rightarrow> dims \<Rightarrow> point" where
  "cfgPageOffset cfg pageId d =
     getPageOffset (resolvePageId cfg pageId) (layout cfg) d (defaultPage cfg) (rowOverlaps cfg) (colOverlaps cfg)"

text \<open>Decimal rendering of an array index, for the keys \<^verbatim>\<open>f_0\<close>, \<^verbatim>\<open>f_1\<close>, ... of an array of frames.\<close>

definition digitChar :: "nat \<Rightarrow> char" where
  "digitChar d = ''0123456789'' ! d"

fun showNat :: "nat \<Rightarrow> string" where
  "showNat n = (if n < 10 then [digitChar n] else showNat (n div 10) @ [digitChar (n mod 10)])"

declare showNat.simps [simp del]

datatype 'st keyframes = KfArray "'st frame list" | KfRecord "(string \<times> 'st frame) list"

text \<open>
  The entries of a keyframe set in enumeration order. A record of frames is given as the
  list of its entries, in the order \<^verbatim>\<open>Object.entries\<close> yields them.
\<close>

definition kfEntries :: "'st keyframes option \<Rightarrow> (string \<times> 'st frame) list" where
  "kfEntries kfs =
     (case kfs of
        None \<Rightarrow> []
      | Some (KfArray fs) \<Rightarrow> map (\<lambda>(i, f). (''f_'' @ showNat i, f)) (enumerate 0 fs)
      | Some (KfRecord es) \<Rightarrow> es)"





type_synonym 'st lanes = "(string \<times> 'st bakedFrame list) list"



text \<open>
  \<^verbatim>\<open>lane.sort((a, b) => (a.value || 0) - (b.value || 0))\<close>. The sort is stable; it is
  modelled as the stable insertion sort under the comparator of the source, where a
  negative result puts \<open>a\<close> first.
\<close>

definition sortKey :: "'st bakedFrame \<Rightarrow> jsnum" where
  "sortKey f = or_zero (value f)"

definition laneCmp :: "'st bakedFrame \<Rightarrow> 'st bakedFrame \<Rightarrow> jsnum" where
  "laneCmp a b = jsub (sortKey a) (sortKey b)"

fun insertLane :: "'st bakedFrame \<Rightarrow> 'st bakedFrame list \<Rightarrow> 'st bakedFrame list" where
  "insertLane x [] = [x]"
| "insertLane x (y # ys) = (if jlt (laneCmp x y) (Fin 0) then x # y # ys else y # insertLane x ys)"

definition sortLane :: "'st bakedFrame list \<Rightarrow> 'st bakedFrame list" where
  "sortLane xs = foldl (\<lambda>acc x. insertLane x acc) [] xs"



subsection \<open>Vocabulary for statements about registration\<close>

text \<open>A lane is sorted when the sort keys \<^verbatim>\<open>value || 0\<close> ascend.\<close>

definition laneSorted :: "'st bakedFrame list \<Rightarrow> bool" where
  "laneSorted xs = sorted_wrt (\<lambda>a b. jle (sortKey a) (sortKey b)) xs"





section \<open>Gesture state machine (AniviewConfig.generateGesture)\<close>

unbundle bit_operations_syntax

text \<open>
  \<^verbatim>\<open>getPages\<close>: the linear indices of the cells equal to \<open>1\<close>, in row-major order, the
  number of columns being the length of the first row.
\<close>

definition getPages :: "config \<Rightarrow> int list" where
  "getPages cfg =
     (let rows = length (layout cfg) in
      if rows = 0 then [0]
      else
        let cols = length (layout cfg ! 0)
        in concat (map (\<lambda>rowIndex.
             concat (map (\<lambda>colIndex.
               if nth_opt (layout cfg ! rowIndex) colIndex = Some 1
               then [int rowIndex * int cols + int colIndex] else [])
             [0 ..< cols]))
           [0 ..< rows]))"

definition cfgWorldBounds :: "config \<Rightarrow> dims \<Rightarrow> worldBounds" where
  "cfgWorldBounds cfg d =
     getWorldBounds (getPages cfg) (layout cfg) d (defaultPage cfg) (rowOverlaps cfg) (colOverlaps cfg)"

record snapPoint =
  sp_id :: int
  sp_x :: jsnum
  sp_y :: jsnum
  sp_row :: int
  sp_col :: int

text \<open>The constants a gesture closes over.\<close>

record gestureEnv =
  env_bounds :: worldBounds
  env_isSingleRow :: bool
  env_screenWidth :: jsnum
  env_screenHeight :: jsnum
  env_snapPoints :: "snapPoint list"
  env_pageMap :: "string \<rightharpoonup> int"
  env_onPageChange :: bool

text \<open>
  \<^verbatim>\<open>generateGesture\<close> up to the construction of the pan gesture; \<open>hasCallback\<close> tells
  whether \<^verbatim>\<open>onPageChange\<close> was passed and \<open>d\<close> is \<^verbatim>\<open>dims || this._contextDims\<close>.
\<close>

definition generateGesture :: "config \<Rightarrow> dims \<Rightarrow> bool \<Rightarrow> gestureEnv" where
  "generateGesture cfg d hasCallback =
     (let pages = getPages cfg;
          rowLength = rowLengthOf (layout cfg)
      in \<lparr>env_bounds = getWorldBounds pages (layout cfg) d (defaultPage cfg) (rowOverlaps cfg) (colOverlaps cfg),
          env_isSingleRow = (length (layout cfg) \<le> 1),
          env_screenWidth = width d,
          env_screenHeight = height d,
          env_snapPoints = map (\<lambda>pageId.
             let offset = getPageOffset pageId (layout cfg) d (defaultPage cfg) (rowOverlaps cfg) (colOverlaps cfg)
             in \<lparr>sp_id = pageId, sp_x = px offset, sp_y = py offset,
                 sp_row = pageId div int rowLength, sp_col = pageId mod int rowLength\<rparr>) pages,
          env_pageMap = pageMap cfg,
          env_onPageChange = hasCallback\<rparr>)"

text \<open>
  The shared values the gesture reads but does not own: each is absent (\<open>None\<close>) when the
  caller passed none. The lock mask is an integer; \<^verbatim>\<open>mask & 1\<close> is bitwise conjunction.
\<close>

record shared =
  sh_lockMask :: "int option"
  sh_gestureEnabled :: "bool option"
  sh_lastTargetId :: "pageref option"

record gstate =
  g_x :: jsnum
  g_y :: jsnum
  g_startX :: jsnum
  g_startY :: jsnum
  g_isSnapping :: bool
  g_activeAxis :: nat
  g_wasDisabled :: bool

record gestureEvent =
  translationX :: jsnum
  translationY :: jsnum
  velocityX :: jsnum
  velocityY :: jsnum

definition onBegin :: "gstate \<Rightarrow> gstate" where
  "onBegin st =
     (let x0 = (if isNaN (g_x st) then Fin 0 else g_x st);
          y0 = (if isNaN (g_y st) then Fin 0 else g_y st)
      in \<lparr>g_x = x0, g_y = y0, g_startX = x0, g_startY = y0,
          g_isSnapping = False, g_activeAxis = 0, g_wasDisabled = False\<rparr>)"

definition RESISTANCE :: jsnum where
  "RESISTANCE = Fin 0.08"

text \<open>Edge resistance: a value outside \<open>[lo, hi]\<close> keeps a fraction of its overshoot.\<close>

definition resist :: "jsnum \<Rightarrow> jsnum \<Rightarrow> jsnum \<Rightarrow> jsnum" where
  "resist lo hi v =
     (if jlt v lo then jadd lo (jmul (jsub v lo) RESISTANCE)
      else if jgt v hi then jadd hi (jmul (jsub v hi) RESISTANCE)
      else v)"

definition maskBit :: "int option \<Rightarrow> int \<Rightarrow> bool" where
  "maskBit lockMask b = (case lockMask of None \<Rightarrow> False | Some m \<Rightarrow> (m AND b) \<noteq> 0)"

definition onUpdate :: "gestureEnv \<Rightarrow> shared \<Rightarrow> gestureEvent \<Rightarrow> gstate \<Rightarrow> gstate" where
  "onUpdate env sh ev st =
     (let currentResyncX = jadd (g_x st) (translationX ev);
          currentResyncY = jadd (g_y st) (translationY ev)
      in if sh_gestureEnabled sh = Some False
         then st\<lparr>g_startX := currentResyncX, g_startY := currentResyncY, g_wasDisabled := True\<rparr>
         else
           let st1 = (if g_wasDisabled st
                      then st\<lparr>g_startX := currentResyncX, g_startY := currentResyncY, g_wasDisabled := False\<rparr>
                      else st);
               st2 = st1\<lparr>g_isSnapping := True\<rparr>;
               dx = jabs (translationX ev);
               dy = jabs (translationY ev);
               isHBlocked = maskBit (sh_lockMask sh) 1;
               isVBlocked = maskBit (sh_lockMask sh) 2;
               st3 = (if g_activeAxis st2 = 0 \<and> (jgt dx (Fin 3) \<or> jgt dy (Fin 3))
                      then st2\<lparr>g_activeAxis := (if jgt dx dy then 1 else 2)\<rparr> else st2);
               axis = g_activeAxis st3;
               newX0 = g_startX st3;
               newY0 = g_startY st3;
               (st4, newX1) =
                  (if axis = 1 \<or> axis = 0
                   then (if isHBlocked then (st3\<lparr>g_startX := jadd (g_x st3) (translationX ev)\<rparr>, newX0)
                         else (st3, jsub (g_startX st3) (translationX ev)))
                   else (st3, newX0));
               (st5, newY1) =
                  (if \<not> env_isSingleRow env \<and> (axis = 2 \<or> axis = 0)
                   then (if isVBlocked then (st4\<lparr>g_startY := jadd (g_y st4) (translationY ev)\<rparr>, newY0)
                         else (st4, jsub (g_startY st4) (translationY ev)))
                   else (st4, newY0));
               newX2 = (if axis = 2 then g_startX st5 else newX1);
               newY2 = (if axis = 1 then g_startY st5 else newY1);
               newX3 = (if isNaN newX2 then g_startX st5 else newX2);
               newY3 = (if isNaN newY2 then g_startY st5 else newY2);
               maxSwipeDistance = jmul (env_screenWidth env) (Fin 1.2);
               deltaX = jsub newX3 (g_startX st5);
               newX4 = (if jgt (jabs deltaX) maxSwipeDistance
                        then jadd (g_startX st5) (if jgt deltaX (Fin 0) then maxSwipeDistance else jneg maxSwipeDistance)
                        else newX3);
               localLimitX = jmul (env_screenWidth env) (Fin 1.5);
               localLimitY = jmul (env_screenHeight env) (Fin 1.5);
               lowX = jsub (g_startX st5) localLimitX;
               highX = jadd (g_startX st5) localLimitX;
               newX5 = resist (minX (env_bounds env)) (maxX (env_bounds env)) newX4;
               newX6 = resist lowX highX newX5;
               newY6 = (if \<not> env_isSingleRow env
                        then
                          let lowY = jsub (g_startY st5) localLimitY;
                              highY = jadd (g_startY st5) localLimitY;
                              newY4 = resist (minY (env_bounds env)) (maxY (env_bounds env)) newY3
                          in resist lowY highY newY4
                        else newY3)
           in st5\<lparr>g_x := newX6, g_y := newY6\<rparr>)"

text \<open>
  What a callback asks of the outside: a page-change notification, or a spring animation
  of a camera axis towards a target (with the initial velocity, when one is given).
\<close>

datatype effect = PageChange int | SpringX jsnum "jsnum option" | SpringY jsnum "jsnum option"

fun jsqrt :: "jsnum \<Rightarrow> jsnum" where
  "jsqrt (Fin a) = (if a < 0 then NaN else Fin (sqrt a))"
| "jsqrt PInf = PInf"
| "jsqrt NInf = NaN"
| "jsqrt NaN = NaN"

definition jsquare :: "jsnum \<Rightarrow> jsnum" where
  "jsquare a = jmul a a"

definition distTo :: "jsnum \<Rightarrow> jsnum \<Rightarrow> snapPoint \<Rightarrow> jsnum" where
  "distTo ax ay snp = jsqrt (jadd (jsquare (jsub ax (sp_x snp))) (jsquare (jsub ay (sp_y snp))))"

record anchor =
  anchorRow :: int
  anchorCol :: int
  anchorId :: int
  minStartDist :: jsnum

definition findAnchor :: "snapPoint list \<Rightarrow> jsnum \<Rightarrow> jsnum \<Rightarrow> anchor" where
  "findAnchor sps sx sy =
     foldl (\<lambda>a snp.
        let dist = distTo sx sy snp
        in if jlt dist (minStartDist a)
           then \<lparr>anchorRow = sp_row snp, anchorCol = sp_col snp, anchorId = sp_id snp, minStartDist = dist\<rparr>
           else a)
       \<lparr>anchorRow = 0, anchorCol = 0, anchorId = - 1, minStartDist = PInf\<rparr> sps"

record target =
  targetX :: jsnum
  targetY :: jsnum
  targetId :: int

definition noTarget :: target where
  "noTarget = \<lparr>targetX = Fin (- 1), targetY = Fin (- 1), targetId = - 1\<rparr>"

definition toTarget :: "snapPoint \<Rightarrow> target" where
  "toTarget snp = \<lparr>targetX = sp_x snp, targetY = sp_y snp, targetId = sp_id snp\<rparr>"

text \<open>The distance fallback of \<^verbatim>\<open>onEnd\<close>: the nearest snap point on the active axis.\<close>

definition nearestOnAxis :: "snapPoint list \<Rightarrow> nat \<Rightarrow> anchor \<Rightarrow> jsnum \<Rightarrow> jsnum \<Rightarrow> target \<Rightarrow> target" where
  "nearestOnAxis sps axis a cx cy t0 =
     fst (foldl (\<lambda>(t, minDistance) snp.
            if axis = 1 \<and> sp_row snp \<noteq> anchorRow a then (t, minDistance)
            else if axis = 2 \<and> sp_col snp \<noteq> anchorCol a then (t, minDistance)
            else
              let dist = distTo cx cy snp
              in if jlt dist minDistance then (toTarget snp, dist) else (t, minDistance))
          (t0, PInf) sps)"

definition VELOCITY_THRESHOLD :: jsnum where
  "VELOCITY_THRESHOLD = Fin 200"

text \<open>The target \<^verbatim>\<open>onEnd\<close> resolves, with the anchor it was resolved from.\<close>

definition resolveTarget :: "gestureEnv \<Rightarrow> gestureEvent \<Rightarrow> gstate \<Rightarrow> anchor \<times> target" where
  "resolveTarget env ev st =
     (let distanceThresholdX = jmul (env_screenWidth env) (Fin 0.08);
          distanceThresholdY = jmul (env_screenHeight env) (Fin 0.08);
          a = findAnchor (env_snapPoints env) (g_startX st) (g_startY st);
          startFound = jlt (minStartDist a) (jmul (env_screenWidth env) (Fin 0.3));
          intentRight = (jlt (velocityX ev) (jneg VELOCITY_THRESHOLD) \<or> jlt (translationX ev) (jneg distanceThresholdX));
          intentLeft = (jgt (velocityX ev) VELOCITY_THRESHOLD \<or> jgt (translationX ev) distanceThresholdX);
          intentDown = (jlt (velocityY ev) (jneg VELOCITY_THRESHOLD) \<or> jlt (translationY ev) (jneg distanceThresholdY));
          intentUp = (jgt (velocityY ev) VELOCITY_THRESHOLD \<or> jgt (translationY ev) distanceThresholdY);
          t1 = (if startFound \<and> (intentRight \<or> intentLeft \<or> (\<not> env_isSingleRow env \<and> (intentDown \<or> intentUp)))
                then
                  let targetCol = (if g_activeAxis st = 1
                                   then (if intentRight then anchorCol a + 1
                                         else if intentLeft then anchorCol a - 1 else anchorCol a)
                                   else anchorCol a);
                      targetRow = (if g_activeAxis st = 2 \<and> \<not> env_isSingleRow env
                                   then (if intentDown then anchorRow a + 1
                                         else if intentUp then anchorRow a - 1 else anchorRow a)
                                   else anchorRow a)
                  in (case find (\<lambda>snp. sp_row snp = targetRow \<and> sp_col snp = targetCol) (env_snapPoints env) of
                        Some snp \<Rightarrow> toTarget snp
                      | None \<Rightarrow> noTarget)
                else noTarget);
          t2 = (if jeq (targetX t1) (Fin (- 1))
                then nearestOnAxis (env_snapPoints env) (g_activeAxis st) a (g_x st) (g_y st) t1
                else t1);
          t3 = (if targetId t2 = - 1
                then (case find (\<lambda>p. sp_id p = anchorId a) (env_snapPoints env) of
                        Some snp \<Rightarrow> \<lparr>targetX = sp_x snp, targetY = sp_y snp, targetId = anchorId a\<rparr>
                      | None \<Rightarrow> t2\<lparr>targetId := anchorId a\<rparr>)
                else t2)
      in (a, t3))"

definition triggerPageChange :: "gestureEnv \<Rightarrow> int \<Rightarrow> effect list" where
  "triggerPageChange env pageId = (if env_onPageChange env then [PageChange pageId] else [])"

text \<open>
  \<^verbatim>\<open>onEnd\<close>. The springs are returned as effects; the camera itself is moved by the
  animation, outside this function. The completion callback of the horizontal spring
  (which clears \<open>isSnapping\<close>) runs when the animation ends and is not part of this step.
\<close>

definition onEnd :: "gestureEnv \<Rightarrow> shared \<Rightarrow> gestureEvent \<Rightarrow> gstate \<Rightarrow> gstate \<times> effect list" where
  "onEnd env sh ev st =
     (if sh_gestureEnabled sh = Some False then (st, [])
      else if env_snapPoints env = [] then (st, [])
      else
        let (a, t) = resolveTarget env ev st;
            notify = (if targetId t \<noteq> - 1 \<and> targetId t \<noteq> anchorId a
                      then triggerPageChange env (targetId t) else []);
            b = env_bounds env;
            isBoundaryX = (jle (targetX t) (minX b) \<or> jge (targetX t) (maxX b));
            isBoundaryY = (jle (targetY t) (minY b) \<or> jge (targetY t) (maxY b));
            velocityDamping = Fin 0.5;
            sx = SpringX (targetX t)
                   (Some (if isBoundaryX then jmul (jneg (velocityX ev)) velocityDamping else jneg (velocityX ev)));
            sy = (if \<not> env_isSingleRow env
                  then SpringY (targetY t)
                         (Some (if isBoundaryY then jmul (jneg (velocityY ev)) velocityDamping else jneg (velocityY ev)))
                  else SpringY (targetY t) None)
        in (st\<lparr>g_isSnapping := True\<rparr>, notify @ [sx, sy]))"

definition resolveId :: "gestureEnv \<Rightarrow> pageref \<Rightarrow> int" where
  "resolveId env pid =
     (case pid of
        PNum n \<Rightarrow> n
      | PName s \<Rightarrow> (case env_pageMap env s of Some n \<Rightarrow> n | None \<Rightarrow> 0))"

definition nearestSnap :: "snapPoint list \<Rightarrow> jsnum \<Rightarrow> jsnum \<Rightarrow> target \<Rightarrow> target" where
  "nearestSnap sps cx cy t0 =
     fst (foldl (\<lambda>(t, minDistance) snp.
            let dist = distTo cx cy snp
            in if jlt dist minDistance then (toTarget snp, dist) else (t, minDistance))
          (t0, PInf) sps)"

text \<open>\<^verbatim>\<open>onFinalize\<close>; \<open>success\<close> is the flag the gesture handler passes.\<close>

definition onFinalize :: "gestureEnv \<Rightarrow> shared \<Rightarrow> bool \<Rightarrow> gstate \<Rightarrow> gstate \<times> effect list" where
  "onFinalize env sh success st =
     (if \<not> success \<or> g_activeAxis st = 0 then (st, [])
      else if sh_gestureEnabled sh = Some False then (st, [])
      else if g_isSnapping st then (st, [])
      else
        let t = nearestSnap (env_snapPoints env) (g_x st) (g_y st)
                  \<lparr>targetX = g_x st, targetY = g_y st, targetId = - 1\<rparr>;
            yield = (case sh_lastTargetId sh of
                       None \<Rightarrow> False
                     | Some lastTarget \<Rightarrow>
                         let currentProgrammaticId = resolveId env lastTarget;
                             a = findAnchor (env_snapPoints env) (g_startX st) (g_startY st)
                         in targetId t = anchorId a \<and> anchorId a \<noteq> currentProgrammaticId)
        in if yield then (st, [])
           else (st, [SpringX (targetX t) None, SpringY (targetY t) None]))"

section \<open>Strings and numbers in text\<close>

text \<open>
  Strings are lists of 8-bit characters. The patterns below are the two regular
  expressions of the colour functions, written as the deterministic matchers they
  denote: in both, every repetition is followed by a character it cannot contain, so the
  greedy match is the only one.
\<close>

definition startsWith :: "string \<Rightarrow> string \<Rightarrow> bool" where
  "startsWith s p = (take (length p) s = p)"

text \<open>\<^verbatim>\<open>s.slice(a, b)\<close> for \<open>0 \<le> a \<le> b\<close>.\<close>

definition slice :: "string \<Rightarrow> nat \<Rightarrow> nat \<Rightarrow> string" where
  "slice s a b = take (b - a) (drop a s)"

text \<open>\<^verbatim>\<open>s.lastIndexOf(c)\<close>, \<open>None\<close> standing for \<open>-1\<close>.\<close>

fun lastIndexOf :: "string \<Rightarrow> char \<Rightarrow> nat option" where
  "lastIndexOf [] c = None"
| "lastIndexOf (x # xs) c =
     (case lastIndexOf xs c of
        Some i \<Rightarrow> Some (Suc i)
      | None \<Rightarrow> if x = c then Some 0 else None)"

definition hexDigitVal :: "char \<Rightarrow> nat option" where
  "hexDigitVal c =
     (if isDigit c then Some (digitVal c)
      else if c \<in> set ''abcdef'' then Some ((of_char c :: nat) - 87)
      else if c \<in> set ''ABCDEF'' then Some ((of_char c :: nat) - 55)
      else None)"

text \<open>
  \<^verbatim>\<open>parseInt(s, 16)\<close>: white space, a sign and a prefix \<^verbatim>\<open>0x\<close> are skipped, then the
  longest run of hexadecimal digits is read; without a digit the result is \<open>NaN\<close>.
\<close>

definition parseInt16 :: "string \<Rightarrow> jsnum" where
  "parseInt16 s =
     (let t = dropWhile isSpace s;
          (neg, u) = (case t of
                        c # r \<Rightarrow> if c = CHR ''-'' then (True, r) else if c = CHR ''+'' then (False, r) else (False, t)
                      | [] \<Rightarrow> (False, t));
          v = (if take 2 u = ''0x'' \<or> take 2 u = ''0X'' then drop 2 u else u);
          ds = takeWhile (\<lambda>c. hexDigitVal c \<noteq> None) v;
          n = foldl (\<lambda>acc c. 16 * acc + the (hexDigitVal c)) 0 ds
      in if ds = [] then NaN else Fin (if neg then - real n else real n))"

text \<open>\<^verbatim>\<open>parseInt(s)\<close> of a decimal string, as a number.\<close>

definition parseIntNum :: "string \<Rightarrow> jsnum" where
  "parseIntNum s = (case parseInt10 s of None \<Rightarrow> NaN | Some n \<Rightarrow> Fin (real_of_int n))"

text \<open>
  \<^verbatim>\<open>parseFloat(s)\<close> on the strings the patterns capture (digits and dots only): the
  longest prefix of the form digits, dot, digits with at least one digit.
\<close>

definition parseFloat :: "string \<Rightarrow> jsnum" where
  "parseFloat s =
     (let ip = takeWhile isDigit s;
          r = dropWhile isDigit s;
          fp = (case r of c # r' \<Rightarrow> if c = CHR ''.'' then takeWhile isDigit r' else [] | [] \<Rightarrow> [])
      in if ip = [] \<and> fp = [] then NaN
         else Fin (real (digitsVal ip) + real (digitsVal fp) / 10 ^ length fp))"

text \<open>
  A number in a template literal. Integers are written in decimal. Another finite number
  is written with its decimal expansion, cut after 17 places and without trailing zeros;
  for numbers that have no short decimal expansion the language prints the shortest
  decimal that reads back as the same double, which the model of exact arithmetic cannot
  express. Exponent notation is not modelled.
\<close>

fun fracDigits :: "real \<Rightarrow> nat \<Rightarrow> string" where
  "fracDigits x 0 = []"
| "fracDigits x (Suc n) = digitChar (nat (\<lfloor>x * 10\<rfloor> mod 10)) # fracDigits (x * 10) n"

definition showReal :: "real \<Rightarrow> string" where
  "showReal x =
     (if x = of_int \<lfloor>x\<rfloor> then showNat (nat \<lfloor>x\<rfloor>)
      else showNat (nat \<lfloor>x\<rfloor>) @ ''.'' @ rev (dropWhile (\<lambda>c. c = CHR ''0'') (rev (fracDigits x 17))))"

fun numToString :: "jsnum \<Rightarrow> string" where
  "numToString (Fin a) = (if a < 0 then ''-'' @ showReal (- a) else showReal a)"
| "numToString PInf = ''Infinity''"
| "numToString NInf = ''-Infinity''"
| "numToString NaN = ''NaN''"

fun jround :: "jsnum \<Rightarrow> jsnum" where
  "jround (Fin a) = Fin (of_int \<lfloor>a + 1 / 2\<rfloor>)"
| "jround v = v"

text \<open>The remainder \<^verbatim>\<open>a % b\<close>, with the sign of the dividend.\<close>

fun jmod :: "jsnum \<Rightarrow> jsnum \<Rightarrow> jsnum" where
  "jmod (Fin a) (Fin b) =
     (if b = 0 then NaN
      else Fin (a - b * (if a / b < 0 then - of_int \<lfloor>- (a / b)\<rfloor> else of_int \<lfloor>a / b\<rfloor>)))"
| "jmod (Fin a) PInf = Fin a"
| "jmod (Fin a) NInf = Fin a"
| "jmod _ _ = NaN"

subsection \<open>The patterns\<close>

definition matchChar :: "char \<Rightarrow> string \<Rightarrow> string option" where
  "matchChar c s = (case s of x # r \<Rightarrow> if x = c then Some r else None | [] \<Rightarrow> None)"

definition optChar :: "char \<Rightarrow> string \<Rightarrow> string" where
  "optChar c s = (case s of x # r \<Rightarrow> if x = c then r else s | [] \<Rightarrow> s)"

definition matchStr :: "string \<Rightarrow> string \<Rightarrow> string option" where
  "matchStr p s = (if startsWith s p then Some (drop (length p) s) else None)"

definition matchDigits :: "string \<Rightarrow> (string \<times> string) option" where
  "matchDigits s = (let ds = takeWhile isDigit s in if ds = [] then None else Some (ds, dropWhile isDigit s))"

definition isDigitOrDot :: "char \<Rightarrow> bool" where
  "isDigitOrDot c = (isDigit c \<or> c = CHR ''.'')"

definition matchDotDigits :: "string \<Rightarrow> (string \<times> string) option" where
  "matchDotDigits s =
     (let ds = takeWhile isDigitOrDot s in if ds = [] then None else Some (ds, dropWhile isDigitOrDot s))"

definition skipSpaces :: "string \<Rightarrow> string" where
  "skipSpaces s = dropWhile isSpace s"

text \<open>The optional group \<^verbatim>\<open>(?:,\s*([\d.]+))?\<close>.\<close>

definition optAlpha :: "string \<Rightarrow> string option \<times> string" where
  "optAlpha s =
     (case matchChar CHR '','' s of
        None \<Rightarrow> (None, s)
      | Some r \<Rightarrow>
          (case matchDotDigits (skipSpaces r) of
             None \<Rightarrow> (None, s)
           | Some (a, r') \<Rightarrow> (Some a, r')))"

text \<open>\<^verbatim>\<open>rgba?\((\d+),\s*(\d+),\s*(\d+)(?:,\s*([\d.]+))?\)\<close> at the start of a string.\<close>

definition rgbaAt :: "string \<Rightarrow> (string \<times> string \<times> string \<times> string option) option" where
  "rgbaAt s =
     (case matchStr ''rgb'' s of None \<Rightarrow> None | Some r0 \<Rightarrow>
      case matchChar CHR ''('' (optChar CHR ''a'' r0) of None \<Rightarrow> None | Some r1 \<Rightarrow>
      case matchDigits r1 of None \<Rightarrow> None | Some (m1, r2) \<Rightarrow>
      case matchChar CHR '','' r2 of None \<Rightarrow> None | Some r3 \<Rightarrow>
      case matchDigits (skipSpaces r3) of None \<Rightarrow> None | Some (m2, r4) \<Rightarrow>
      case matchChar CHR '','' r4 of None \<Rightarrow> None | Some r5 \<Rightarrow>
      case matchDigits (skipSpaces r5) of None \<Rightarrow> None | Some (m3, r6) \<Rightarrow>
      case optAlpha r6 of (m4, r7) \<Rightarrow>
      case matchChar CHR '')'' r7 of None \<Rightarrow> None | Some _ \<Rightarrow> Some (m1, m2, m3, m4))"

text \<open>\<^verbatim>\<open>hsla?\((\d+),\s*([\d.]+)%?,\s*([\d.]+)%?(?:,\s*([\d.]+))?\)\<close> at the start of a string.\<close>

definition hslaAt :: "string \<Rightarrow> (string \<times> string \<times> string \<times> string option) option" where
  "hslaAt s =
     (case matchStr ''hsl'' s of None \<Rightarrow> None | Some r0 \<Rightarrow>
      case matchChar CHR ''('' (optChar CHR ''a'' r0) of None \<Rightarrow> None | Some r1 \<Rightarrow>
      case matchDigits r1 of None \<Rightarrow> None | Some (m1, r2) \<Rightarrow>
      case matchChar CHR '','' r2 of None \<Rightarrow> None | Some r3 \<Rightarrow>
      case matchDotDigits (skipSpaces r3) of None \<Rightarrow> None | Some (m2, r4) \<Rightarrow>
      case matchChar CHR '','' (optChar CHR ''%'' r4) of None \<Rightarrow> None | Some r5 \<Rightarrow>
      case matchDotDigits (skipSpaces r5) of None \<Rightarrow> None | Some (m3, r6) \<Rightarrow>
      case optAlpha (optChar CHR ''%'' r6) of (m4, r7) \<Rightarrow>
      case matchChar CHR '')'' r7 of None \<Rightarrow> None | Some _ \<Rightarrow> Some (m1, m2, m3, m4))"

text \<open>\<^verbatim>\<open>s.match(pattern)\<close>: the leftmost position where the pattern matches.\<close>

fun search :: "(string \<Rightarrow> 'a option) \<Rightarrow> string \<Rightarrow> 'a option" where
  "search pat [] = pat []"
| "search pat (c # cs) = (case pat (c # cs) of Some m \<Rightarrow> Some m | None \<Rightarrow> search pat cs)"

section \<open>Colour model\<close>

definition transparentBlack :: string where
  "transparentBlack = ''rgba(0,0,0,0)''"

definition rgbaString :: "string \<Rightarrow> string \<Rightarrow> string \<Rightarrow> string \<Rightarrow> string" where
  "rgbaString r g b a = ''rgba('' @ r @ '','' @ g @ '','' @ b @ '','' @ a @ '')''"

text \<open>The hue-to-channel function of both colour parsers, for \<^verbatim>\<open>hsl\<close> and \<^verbatim>\<open>hsla\<close>.\<close>

definition hslChannel :: "jsnum \<Rightarrow> jsnum \<Rightarrow> jsnum \<Rightarrow> real \<Rightarrow> jsnum" where
  "hslChannel h s l n =
     (let k = jmod (jadd (Fin n) (jdiv h (Fin 30))) (Fin 12);
          arc = jmul s (jmin l (jsub (Fin 1) l));
          f = jsub l (jmul arc (jmax (Fin (- 1)) (jmin (jsub k (Fin 3)) (jmin (jsub (Fin 9) k) (Fin 1)))))
      in jround (jmul (Fin 255) f))"

definition normalizeColorToRgba :: "string \<Rightarrow> string" where
  "normalizeColorToRgba c =
     (if c = [] \<or> c = ''transparent'' then ''rgba(0,0,0,0)''
      else if startsWith c ''#'' then
        let hex = slice c 1 (length c);
            (r, g, b, a) =
              (if length hex = 3
               then (parseInt16 [hex ! 0, hex ! 0], parseInt16 [hex ! 1, hex ! 1], parseInt16 [hex ! 2, hex ! 2], Fin 1)
               else (parseInt16 (slice hex 0 2), parseInt16 (slice hex 2 4), parseInt16 (slice hex 4 6),
                     if length hex = 8 then jdiv (parseInt16 (slice hex 6 8)) (Fin 255) else Fin 1))
        in rgbaString (numToString r) (numToString g) (numToString b) (numToString a)
      else
        case search rgbaAt c of
          Some (m1, m2, m3, m4) \<Rightarrow> rgbaString m1 m2 m3 (case m4 of Some a \<Rightarrow> a | None \<Rightarrow> ''1'')
        | None \<Rightarrow>
           (case search hslaAt c of
              Some (m1, m2, m3, m4) \<Rightarrow>
                let h = parseIntNum m1;
                    s = jdiv (parseFloat m2) (Fin 100);
                    l = jdiv (parseFloat m3) (Fin 100);
                    a = (case m4 of Some t \<Rightarrow> parseFloat t | None \<Rightarrow> Fin 1)
                in rgbaString (numToString (hslChannel h s l 0)) (numToString (hslChannel h s l 8))
                              (numToString (hslChannel h s l 4)) (numToString a)
            | None \<Rightarrow> ''rgba(0,0,0,0)''))"

text \<open>
  The channel parser inside \<^verbatim>\<open>jsInterpolateColor\<close>; \<open>None\<close> is an absent
  (\<^verbatim>\<open>undefined\<close>) colour.
\<close>

record rgba =
  ch_r :: jsnum
  ch_g :: jsnum
  ch_b :: jsnum
  ch_a :: jsnum

definition parseColor :: "string option \<Rightarrow> rgba" where
  "parseColor co =
     (case co of
        None \<Rightarrow> \<lparr>ch_r = Fin 0, ch_g = Fin 0, ch_b = Fin 0, ch_a = Fin 0\<rparr>
      | Some c \<Rightarrow>
        if c = [] \<or> c = ''transparent'' then \<lparr>ch_r = Fin 0, ch_g = Fin 0, ch_b = Fin 0, ch_a = Fin 0\<rparr>
        else if startsWith c ''#'' then
          let hex = slice c 1 (length c)
          in if length hex = 3
             then \<lparr>ch_r = parseInt16 [hex ! 0, hex ! 0], ch_g = parseInt16 [hex ! 1, hex ! 1],
                   ch_b = parseInt16 [hex ! 2, hex ! 2], ch_a = Fin 1\<rparr>
             else \<lparr>ch_r = parseInt16 (slice hex 0 2), ch_g = parseInt16 (slice hex 2 4),
                   ch_b = parseInt16 (slice hex 4 6),
                   ch_a = (if length hex = 8 then jdiv (parseInt16 (slice hex 6 8)) (Fin 255) else Fin 1)\<rparr>
        else
          case search rgbaAt c of
            Some (m1, m2, m3, m4) \<Rightarrow>
              \<lparr>ch_r = parseIntNum m1, ch_g = parseIntNum m2, ch_b = parseIntNum m3,
               ch_a = (case m4 of Some a \<Rightarrow> parseFloat a | None \<Rightarrow> Fin 1)\<rparr>
          | None \<Rightarrow>
             (case search hslaAt c of
                Some (m1, m2, m3, m4) \<Rightarrow>
                  let h = parseIntNum m1;
                      s = jdiv (parseFloat m2) (Fin 100);
                      l = jdiv (parseFloat m3) (Fin 100)
                  in \<lparr>ch_r = hslChannel h s l 0, ch_g = hslChannel h s l 8, ch_b = hslChannel h s l 4,
                      ch_a = (case m4 of Some t \<Rightarrow> parseFloat t | None \<Rightarrow> Fin 1)\<rparr>
              | None \<Rightarrow> \<lparr>ch_r = Fin 0, ch_g = Fin 0, ch_b = Fin 0, ch_a = Fin 0\<rparr>))"

text \<open>The blend of two parsed colours at a progress, rendered as \<^verbatim>\<open>rgba(r,g,b,a)\<close>.\<close>

definition blendColors :: "jsnum \<Rightarrow> rgba \<Rightarrow> rgba \<Rightarrow> string" where
  "blendColors progress s e =
     (let r = jround (jadd (ch_r s) (jmul (jsub (ch_r e) (ch_r s)) progress));
          g = jround (jadd (ch_g s) (jmul (jsub (ch_g e) (ch_g s)) progress));
          b = jround (jadd (ch_b s) (jmul (jsub (ch_b e) (ch_b s)) progress));
          a = jadd (ch_a s) (jmul (jsub (ch_a e) (ch_a s)) progress)
      in rgbaString (numToString r) (numToString g) (numToString b) (numToString a))"

definition isEmptyColor :: "string option \<Rightarrow> bool" where
  "isEmptyColor co = (co = None \<or> co = Some [])"

definition jsInterpolateColor :: "jsnum \<Rightarrow> jsnum \<Rightarrow> jsnum \<Rightarrow> string option \<Rightarrow> string option \<Rightarrow> string" where
  "jsInterpolateColor val start stop startColor endColor =
     (if isEmptyColor startColor \<or> isEmptyColor endColor \<or> startColor = endColor
      then (if isEmptyColor startColor then ''rgba(0,0,0,0)'' else the startColor)
      else
        let range = (if truthy (jsub stop start) then jsub stop start else Fin 1);
            progress = jmax (Fin 0) (jmin (Fin 1) (jdiv (jsub val start) range))
        in blendColors progress (parseColor startColor) (parseColor endColor))"

text \<open>
  Modelled from the spec: \<^verbatim>\<open>interpolateColor\<close> of the animation library, which is not
  part of the repository, on a range of two points. Following section 4.1 of the
  specification it blends each of the four channels linearly by the progress of the value
  in the input range, clamped to the end points outside the range; channels are read with
  the parser above and the result is rendered like the repository's own interpolator does.
\<close>

definition interpolateColor2 :: "jsnum \<Rightarrow> jsnum \<Rightarrow> jsnum \<Rightarrow> string option \<Rightarrow> string option \<Rightarrow> string" where
  "interpolateColor2 val t0 t1 c0 c1 =
     (let progress = jmax (Fin 0) (jmin (Fin 1) (jdiv (jsub val t0) (jsub t1 t0)))
      in blendColors progress (parseColor c0) (parseColor c1))"

text \<open>\<^verbatim>\<open>fix(transp, source)\<close>, the local function of \<^verbatim>\<open>smartInterpolateColor\<close>.\<close>

definition fixTransparent :: "string option \<Rightarrow> string option \<Rightarrow> string option" where
  "fixTransparent tr src0 =
     (if tr \<noteq> Some ''rgba(0,0,0,0)'' then tr
      else case src0 of
        None \<Rightarrow> tr
      | Some src \<Rightarrow>
          if src = [] \<or> \<not> startsWith src ''rgba'' then tr
          else case lastIndexOf src CHR '','' of
                 None \<Rightarrow> tr
               | Some lastComma \<Rightarrow> Some (take (lastComma + 1) src @ ''0)''))"

text \<open>The loop of \<^verbatim>\<open>smartInterpolateColor\<close>, which stops one segment earlier than \<^verbatim>\<open>getSegmentInfo\<close>.\<close>

function colorSegLoop :: "jsnum \<Rightarrow> jsnum list \<Rightarrow> nat \<Rightarrow> nat" where
  "colorSegLoop val input i =
     (if i < length input - 2 \<and> jge val (numAt input (i + 1))
      then colorSegLoop val input (i + 1) else i)"
  by pat_completeness auto
termination
  by (relation "measure (\<lambda>(val, input, i). length input - 2 - i)") auto

declare colorSegLoop.simps [simp del]

definition smartInterpolateColor :: "jsnum \<Rightarrow> jsnum list \<Rightarrow> string option list \<Rightarrow> string option" where
  "smartInterpolateColor val input output =
     (if length output = 0 then Some ''rgba(0,0,0,0)''
      else if length output = 1 then output ! 0
      else if jle val (numAt input 0) then output ! 0
      else if jge val (numAt input (length input - 1)) then output ! (length output - 1)
      else
        let i = colorSegLoop val input 0
        in if \<not> i + 1 < length input then output ! (length output - 1)
           else
             let c1 = (if i < length output then output ! i else None);
                 c2 = (if i + 1 < length output then output ! (i + 1) else None);
                 useC1 = fixTransparent c1 c2;
                 useC2 = fixTransparent c2 c1
             in Some (interpolateColor2 val (input ! i) (input ! (i + 1)) useC1 useC2))"

section \<open>Interpolation primitives of the animation library\<close>

text \<open>
  Modelled from the spec: \<^verbatim>\<open>interpolate(x, input, output, Extrapolation.CLAMP)\<close> of the
  animation library, which is not part of the repository. Section 4.6 of the
  specification describes it as interpolation across the sorted value and output arrays,
  clamped at the ends. The segment is the first one whose right end is not below \<open>x\<close> (the
  last one when \<open>x\<close> lies beyond the range); inside it the output is the linear blend, and a
  blend that leaves the segment's outputs is replaced by the output at the end it left
  through. No guard against a segment of width zero is assumed: the quotient is then taken
  as it is. The library rejects ranges of fewer than two points.
\<close>

datatype evalError = RangeTooShort | MissingRange

record narrowed =
  leftEdgeInput :: jsnum
  rightEdgeInput :: jsnum
  leftEdgeOutput :: jsnum
  rightEdgeOutput :: jsnum

definition internalInterpolate :: "jsnum \<Rightarrow> narrowed \<Rightarrow> jsnum" where
  "internalInterpolate x n =
     (let progress = jdiv (jsub x (leftEdgeInput n)) (jsub (rightEdgeInput n) (leftEdgeInput n));
          v = jadd (leftEdgeOutput n) (jmul progress (jsub (rightEdgeOutput n) (leftEdgeOutput n)));
          coef = (if jge (rightEdgeOutput n) (leftEdgeOutput n) then Fin 1 else Fin (- 1))
      in if jlt (jmul coef v) (jmul coef (leftEdgeOutput n)) then leftEdgeOutput n
         else if jgt (jmul coef v) (jmul coef (rightEdgeOutput n)) then rightEdgeOutput n
         else v)"

text \<open>The index of the right end of the segment chosen for \<open>x\<close>, searched from index \<open>i\<close>.\<close>

function narrowLoop :: "jsnum \<Rightarrow> jsnum list \<Rightarrow> nat \<Rightarrow> nat option" where
  "narrowLoop x input i =
     (if i < length input
      then (if jle x (input ! i) then Some i else narrowLoop x input (i + 1))
      else None)"
  by pat_completeness auto
termination
  by (relation "measure (\<lambda>(x, input, i). length input - i)") auto

declare narrowLoop.simps [simp del]

definition narrowIndex :: "jsnum \<Rightarrow> jsnum list \<Rightarrow> nat" where
  "narrowIndex x input =
     (let n = length input in
      if n > 2
      then (if jgt x (input ! (n - 1)) then n - 1
            else (case narrowLoop x input 1 of Some i \<Rightarrow> i | None \<Rightarrow> 1))
      else 1)"

definition interpolate :: "jsnum \<Rightarrow> jsnum list \<Rightarrow> jsnum list \<Rightarrow> evalError + jsnum" where
  "interpolate x input output =
     (if length input < 2 \<or> length output < 2 then Inl RangeTooShort
      else
        let i = narrowIndex x input
        in Inr (internalInterpolate x
                  \<lparr>leftEdgeInput = input ! (i - 1), rightEdgeInput = input ! i,
                   leftEdgeOutput = numAt output (i - 1), rightEdgeOutput = numAt output i\<rparr>))"

text \<open>
  Modelled from the spec: \<^verbatim>\<open>interpolateColor\<close> of the library on a range of any length,
  as the two-point blend on the segment \<^verbatim>\<open>interpolate\<close> would choose.
\<close>

definition interpolateColor :: "jsnum \<Rightarrow> jsnum list \<Rightarrow> string option list \<Rightarrow> evalError + string" where
  "interpolateColor x input output =
     (if length input < 2 \<or> length output < 2 then Inl RangeTooShort
      else
        let i = narrowIndex x input
        in Inr (interpolateColor2 x (input ! (i - 1)) (input ! i)
                  (if i - 1 < length output then output ! (i - 1) else None)
                  (if i < length output then output ! i else None)))"

section \<open>Frame evaluator (the animated style of Aniview)\<close>

text \<open>
  A property value is a number or a string. Where the source reads a value of the wrong
  type for its key (a string under a numeric key, a number under a colour key) the model
  reads it as absent; an absent number in arithmetic is \<open>NaN\<close>.
\<close>

datatype propval = VNum jsnum | VStr string

definition numOf :: "propval option \<Rightarrow> jsnum option" where
  "numOf v = (case v of Some (VNum n) \<Rightarrow> Some n | _ \<Rightarrow> None)"

definition strOf :: "propval option \<Rightarrow> string option" where
  "strOf v = (case v of Some (VStr s) \<Rightarrow> Some s | _ \<Rightarrow> None)"

definition nanIfAbsent :: "jsnum option \<Rightarrow> jsnum" where
  "nanIfAbsent v = (case v of Some n \<Rightarrow> n | None \<Rightarrow> NaN)"

text \<open>\<^verbatim>\<open>v ?? d\<close> on numbers.\<close>

definition orElse :: "jsnum option \<Rightarrow> jsnum \<Rightarrow> jsnum" where
  "orElse v d = (case v of Some n \<Rightarrow> n | None \<Rightarrow> d)"

record lane =
  fixed :: jsnum
  "values" :: "propval option list list"
  constFlags :: "bool list"

record bakedLane =
  ev_values :: "jsnum list"
  ev_outputRanges :: "propval option list list"
  ev_keys :: "string list"
  ev_persistent :: bool

text \<open>
  The baked result. \<open>baseRest\<close> and \<open>baseTransform\<close> are the two parts of
  \<^verbatim>\<open>baseProps\<close>; the entries of the nested objects \<^verbatim>\<open>shadowOffset\<close> and
  \<^verbatim>\<open>textShadowOffset\<close> are addressed by dotted keys.
\<close>

record bakedResult =
  homeX :: jsnum
  homeY :: jsnum
  localX :: jsnum
  localY :: jsnum
  bakedH :: "lane list"
  bakedV :: "lane list"
  bakedCH :: "lane list"
  bakedCV :: "lane list"
  bakedEventLanes :: "(string \<times> bakedLane) list"
  uniqueX :: "jsnum list"
  uniqueY :: "jsnum list"
  numericKeys :: "string list"
  colorKeys :: "string list"
  baseRest :: "string \<rightharpoonup> propval"
  baseTransform :: "(string \<times> propval) list"
  homeProps :: "string \<rightharpoonup> propval"

text \<open>The style object the evaluator returns; \<open>None\<close> for a property it does not have.\<close>

record astyle =
  props :: "string \<rightharpoonup> propval option"
  transform :: "(string \<times> propval option) list option"

definition invisible :: astyle where
  "invisible = \<lparr>props = [''opacity'' \<mapsto> Some (VNum (Fin 0))], transform = None\<rparr>"

definition homeNum :: "bakedResult \<Rightarrow> string \<Rightarrow> jsnum option" where
  "homeNum baked k = numOf (homeProps baked k)"

definition visibleOn :: "jsnum \<Rightarrow> jsnum \<Rightarrow> jsnum list \<Rightarrow> jsnum \<Rightarrow> bool" where
  "visibleOn camera home unique threshold =
     (jle (jabs (jsub camera home)) threshold \<or>
      list_ex (\<lambda>u. jlt (jabs (jsub camera u)) threshold) unique)"

definition falloff :: "jsnum \<Rightarrow> jsnum \<Rightarrow> jsnum \<Rightarrow> jsnum" where
  "falloff camera home window =
     jsub (Fin 1) (jmin (Fin 1) (jmax (Fin 0) (jdiv (jabs (jsub camera home)) window)))"

definition presenceOf :: "bakedResult \<Rightarrow> dims \<Rightarrow> bool \<Rightarrow> jsnum \<Rightarrow> jsnum \<Rightarrow> jsnum" where
  "presenceOf baked d isSingleRowVal cameraX cameraY =
     (let windowX = jmul (width d) (Fin 0.4);
          windowY = jmul (height d) (Fin 0.4);
          pX0 = falloff cameraX (homeX baked) windowX;
          pY0 = (if isSingleRowVal then Fin 1 else falloff cameraY (homeY baked) windowY);
          pX = (if \<not> truthy pX0 \<or> isNaN pX0 then Fin 0 else pX0);
          pY = (if \<not> truthy pY0 \<or> isNaN pY0 then Fin 0 else pY0);
          presenceX = jmul pX pX;
          presenceY = (if isSingleRowVal then Fin 1 else jmul pY pY)
      in jmul presenceX presenceY)"

record laneInfo =
  l1idx :: nat
  l2idx :: nat
  mix :: jsnum
  ldist :: jsnum

function laneLoop :: "lane list \<Rightarrow> jsnum \<Rightarrow> nat \<Rightarrow> nat" where
  "laneLoop lanes pos i =
     (if i < length lanes - 1 \<and> jgt pos (fixed (lanes ! i)) then laneLoop lanes pos (i + 1) else i)"
  by pat_completeness auto
termination
  by (relation "measure (\<lambda>(lanes, pos, i). length lanes - 1 - i)") auto

declare laneLoop.simps [simp del]

definition getLaneInfo :: "lane list \<Rightarrow> jsnum \<Rightarrow> laneInfo option" where
  "getLaneInfo lanes pos =
     (if lanes = [] then None
      else
        let i = laneLoop lanes pos 0;
            i1 = i - 1;
            i2 = i;
            gap = jsub (fixed (lanes ! i2)) (fixed (lanes ! i1));
            m = jmax (Fin 0) (jmin (Fin 1)
                  (if jgt gap (Fin 0.1) then jdiv (jsub pos (fixed (lanes ! i1))) gap else Fin 0))
        in Some \<lparr>l1idx = i1, l2idx = i2, mix = m,
                 ldist = jmin (jabs (jsub pos (fixed (lanes ! i1)))) (jabs (jsub pos (fixed (lanes ! i2))))\<rparr>)"

definition pnumAt :: "propval option list \<Rightarrow> nat \<Rightarrow> jsnum" where
  "pnumAt xs i = (if i < length xs then nanIfAbsent (numOf (xs ! i)) else NaN)"

definition pstrAt :: "propval option list \<Rightarrow> nat \<Rightarrow> string option" where
  "pstrAt xs i = (if i < length xs then strOf (xs ! i) else None)"

definition flagAt :: "bool list \<Rightarrow> nat \<Rightarrow> bool" where
  "flagAt fs i = (i < length fs \<and> fs ! i)"

text \<open>One lane of one axis for a numeric key: the lane's value at the camera.\<close>

definition alongNum :: "lane \<Rightarrow> nat \<Rightarrow> segment \<Rightarrow> propval option list \<Rightarrow> jsnum" where
  "alongNum lan i seg ov =
     (if flagAt (constFlags lan) i \<or> seg_constant seg then pnumAt ov (seg_i seg)
      else jadd (pnumAt ov (seg_i seg))
                (jmul (seg_p seg) (jsub (pnumAt ov (seg_i seg + 1)) (pnumAt ov (seg_i seg)))))"

definition alongColor :: "lane \<Rightarrow> nat \<Rightarrow> segment \<Rightarrow> jsnum \<Rightarrow> jsnum list \<Rightarrow> propval option list \<Rightarrow> string option" where
  "alongColor lan i seg camera unique ov =
     (if flagAt (constFlags lan) i \<or> seg_constant seg then pstrAt ov (seg_i seg)
      else smartInterpolateColor camera unique (map (\<lambda>v. strOf v) ov))"

text \<open>
  The value of key number \<open>i\<close> across one pair of bracketing lanes (\<open>vH\<close> or \<open>vV\<close> of
  \<^verbatim>\<open>runSpatial\<close>), before the fallback to the home value.
\<close>

definition acrossNum ::
  "bool \<Rightarrow> lane list \<Rightarrow> laneInfo \<Rightarrow> nat \<Rightarrow> segment \<Rightarrow> jsnum option \<Rightarrow> jsnum option" where
  "acrossNum isNear lanes info i seg home =
     (if isNear \<and> l1idx info < length lanes \<and> l2idx info < length lanes
      then
        let laneL = lanes ! l1idx info; laneR = lanes ! l2idx info
        in (case (nth_opt (values laneL) i, nth_opt (values laneR) i) of
              (Some o1, Some o2) \<Rightarrow>
                 let r1 = alongNum laneL i seg o1; r2 = alongNum laneR i seg o2
                 in Some (jadd r1 (jmul (mix info) (jsub r2 r1)))
            | _ \<Rightarrow> home)
      else home)"

definition acrossColor ::
  "bool \<Rightarrow> lane list \<Rightarrow> laneInfo \<Rightarrow> nat \<Rightarrow> segment \<Rightarrow> jsnum \<Rightarrow> jsnum list \<Rightarrow> string option \<Rightarrow> string option" where
  "acrossColor isNear lanes info i seg camera unique home =
     (if isNear \<and> l1idx info < length lanes \<and> l2idx info < length lanes
      then
        let laneL = lanes ! l1idx info; laneR = lanes ! l2idx info
        in (case (nth_opt (values laneL) i, nth_opt (values laneR) i) of
              (Some o1, Some o2) \<Rightarrow>
                 let r1 = alongColor laneL i seg camera unique o1; r2 = alongColor laneR i seg camera unique o2
                 in smartInterpolateColor (mix info) [Fin 0, Fin 1] [r1, r2]
            | _ \<Rightarrow> home)
      else home)"

text \<open>What the evaluator has computed before the spatial phase.\<close>

record frameCtx =
  cx :: jsnum
  cy :: jsnum
  laneH :: laneInfo
  laneV :: laneInfo
  isNearH :: bool
  isNearV :: bool
  hWeight :: jsnum
  segX :: segment
  segY :: segment

definition spatialNum :: "bakedResult \<Rightarrow> frameCtx \<Rightarrow> string \<Rightarrow> nat \<Rightarrow> jsnum" where
  "spatialNum baked c k i =
     (let home = homeNum baked k;
          vH0 = acrossNum (isNearH c) (bakedH baked) (laneH c) i (segX c) home;
          vV0 = acrossNum (isNearV c) (bakedV baked) (laneV c) i (segY c) home;
          vH = (case vH0 of Some n \<Rightarrow> if isNaN n then or_zero home else n | None \<Rightarrow> or_zero home);
          vV = (case vV0 of Some n \<Rightarrow> if isNaN n then or_zero home else n | None \<Rightarrow> or_zero home)
      in if isNearH c \<and> isNearV c
         then jadd (jmul vH (hWeight c)) (jmul vV (jsub (Fin 1) (hWeight c)))
         else if isNearH c then vH else vV)"

definition spatialColor :: "bakedResult \<Rightarrow> frameCtx \<Rightarrow> string \<Rightarrow> nat \<Rightarrow> string option" where
  "spatialColor baked c k i =
     (let home = strOf (homeProps baked k);
          vH = acrossColor (isNearH c) (bakedCH baked) (laneH c) i (segX c) (cx c) (uniqueX baked) home;
          vV = acrossColor (isNearV c) (bakedCV baked) (laneV c) i (segY c) (cy c) (uniqueY baked) home
      in if isNearH c \<and> isNearV c
         then smartInterpolateColor (hWeight c) [Fin 0, Fin 1] [vV, vH]
         else if isNearH c then vH else vV)"

text \<open>\<^verbatim>\<open>runSpatial\<close> over the numeric keys, then over the colour keys.\<close>

definition spatialVals :: "bakedResult \<Rightarrow> frameCtx \<Rightarrow> string \<rightharpoonup> propval" where
  "spatialVals baked c =
     (let s1 = fold (\<lambda>(i, k) sv. sv(k \<mapsto> VNum (spatialNum baked c k i)))
                 (enumerate 0 (numericKeys baked)) (homeProps baked)
      in fold (\<lambda>(i, k) sv. sv(k := map_option VStr (spatialColor baked c k i)))
           (enumerate 0 (colorKeys baked)) s1)"

subsection \<open>Event phase\<close>

text \<open>The value of a numeric key on an event lane, before weighting.\<close>

definition hasDuplicate :: "jsnum list \<Rightarrow> bool" where
  "hasDuplicate vs = list_ex (\<lambda>j. jlt (jabs (jsub (vs ! (j + 1)) (vs ! j))) (Fin 0.0001)) [0 ..< length vs - 1]"

definition laneNumeric :: "jsnum \<Rightarrow> jsnum \<Rightarrow> jsnum list \<Rightarrow> propval option list option \<Rightarrow> evalError + jsnum" where
  "laneNumeric home0 val vs rng =
     (let laneLen = length vs in
      if laneLen = 1 then
        (case rng of None \<Rightarrow> Inl MissingRange | Some rg \<Rightarrow>
           let v1 = vs ! 0 in
           if jgt (jabs v1) (Fin 0.001) then interpolate val [Fin 0, v1] [home0, pnumAt rg 0]
           else Inr (if jgt val (Fin 0) then pnumAt rg 0 else home0))
      else if laneLen \<ge> 2 then
        (case rng of None \<Rightarrow> Inl MissingRange | Some rg \<Rightarrow>
           if \<not> hasDuplicate vs then interpolate val vs (map (\<lambda>v. nanIfAbsent (numOf v)) rg)
           else Inr (pnumAt rg 0))
      else Inr home0)"

definition laneColor :: "jsnum \<Rightarrow> jsnum list \<Rightarrow> propval option list option \<Rightarrow> evalError + string option" where
  "laneColor val vs rng =
     (case rng of None \<Rightarrow> Inl MissingRange | Some rg \<Rightarrow>
        if length vs < 2 then Inr (pstrAt rg 0)
        else (case interpolateColor val vs (map (\<lambda>v. strOf v) rg) of
                Inl e \<Rightarrow> Inl e
              | Inr s \<Rightarrow> Inr (Some s)))"

record eventAcc =
  eventResults :: "string \<rightharpoonup> jsnum"
  eventColorResults :: "string \<rightharpoonup> string"

definition eventKey ::
  "bakedResult \<Rightarrow> jsnum \<Rightarrow> jsnum \<Rightarrow> bakedLane \<Rightarrow> nat \<times> string \<Rightarrow> evalError + eventAcc \<Rightarrow> evalError + eventAcc" where
  "eventKey baked laneWeight val lan ik acc0 =
     (case acc0 of Inl e \<Rightarrow> Inl e | Inr acc \<Rightarrow>
      let (i, k) = ik;
          rng = nth_opt (ev_outputRanges lan) i
      in if k \<in> set (colorKeys baked) then
           (case laneColor val (ev_values lan) rng of
              Inl e \<Rightarrow> Inl e
            | Inr result \<Rightarrow>
                let c = (if jlt laneWeight (Fin 0.99)
                         then smartInterpolateColor laneWeight [Fin 0, Fin 1] [strOf (homeProps baked k), result]
                         else result)
                in Inr (acc\<lparr>eventColorResults := (eventColorResults acc)(k := c)\<rparr>))
         else
           let home0 = orElse (homeNum baked k) (Fin 0) in
           (case laneNumeric home0 val (ev_values lan) rng of
              Inl e \<Rightarrow> Inl e
            | Inr result \<Rightarrow>
                let diff = jmul (jsub result home0) laneWeight;
                    new = (case eventResults acc k of
                             None \<Rightarrow> jadd home0 diff
                           | Some old \<Rightarrow> if \<not> truthy old then jadd home0 diff else jadd old diff)
                in Inr (acc\<lparr>eventResults := (eventResults acc)(k \<mapsto> new)\<rparr>)))"

definition eventLane ::
  "bakedResult \<Rightarrow> (string \<rightharpoonup> jsnum) \<Rightarrow> jsnum \<Rightarrow> string \<times> bakedLane \<Rightarrow> evalError + eventAcc \<Rightarrow> evalError + eventAcc" where
  "eventLane baked events presence entry acc =
     (let (eName, lan) = entry in
      case events eName of
        None \<Rightarrow> acc
      | Some val \<Rightarrow>
          let laneWeight = (if ev_persistent lan then Fin 1 else presence)
          in fold (eventKey baked laneWeight val lan) (enumerate 0 (ev_keys lan)) acc)"

definition eventPhase :: "bakedResult \<Rightarrow> (string \<rightharpoonup> jsnum) \<Rightarrow> jsnum \<Rightarrow> evalError + eventAcc" where
  "eventPhase baked events presence =
     fold (eventLane baked events presence) (bakedEventLanes baked)
       (Inr \<lparr>eventResults = Map.empty, eventColorResults = Map.empty\<rparr>)"

subsection \<open>Composition\<close>

definition compositeNumeric :: "bakedResult \<Rightarrow> eventAcc \<Rightarrow> string \<Rightarrow> jsnum option \<Rightarrow> jsnum" where
  "compositeNumeric baked acc k base =
     (case eventResults acc k of
        None \<Rightarrow> orElse base (Fin 0)
      | Some evVal \<Rightarrow>
          let homeVal = orElse (homeNum baked k) (Fin 0);
              evDiff = jsub evVal homeVal
          in if k = ''opacity'' \<or> k = ''_tr_scale''
             then jmul (orElse base (Fin 0)) (jdiv evVal (if truthy homeVal then homeVal else Fin 1))
             else jadd (orElse base (Fin 0)) evDiff)"

text \<open>Keys in order of first occurrence, as the iteration of a \<^verbatim>\<open>Set\<close> yields them.\<close>

fun uniq :: "'a list \<Rightarrow> 'a list \<Rightarrow> 'a list" where
  "uniq seen [] = []"
| "uniq seen (x # xs) = (if x \<in> set seen then uniq seen xs else x # uniq (x # seen) xs)"

record build =
  finalX :: jsnum
  finalY :: jsnum
  bprops :: "string \<rightharpoonup> propval option"
  btransform :: "(string \<times> propval option) list"

definition isRotate :: "string \<Rightarrow> bool" where
  "isRotate tName = (tName = ''rotate'' \<or> tName = ''rotateX'' \<or> tName = ''rotateY'' \<or> tName = ''rotateZ'')"

definition endsWith :: "string \<Rightarrow> string \<Rightarrow> bool" where
  "endsWith s p = (length p \<le> length s \<and> drop (length s - length p) s = p)"

text \<open>A value in a template literal.\<close>

definition valueToString :: "propval option \<Rightarrow> string" where
  "valueToString v = (case v of None \<Rightarrow> ''undefined'' | Some (VNum n) \<Rightarrow> numToString n | Some (VStr s) \<Rightarrow> s)"

text \<open>The value \<^verbatim>\<open>res\<close> the final loop computes for a key.\<close>

definition keyResult :: "bakedResult \<Rightarrow> (string \<rightharpoonup> propval) \<Rightarrow> eventAcc \<Rightarrow> string \<Rightarrow> propval option" where
  "keyResult baked sv acc k =
     (if k \<in> set (colorKeys baked)
      then (case eventColorResults acc k of
              Some s \<Rightarrow> Some (VStr s)
            | None \<Rightarrow> (case sv k of Some v \<Rightarrow> Some v | None \<Rightarrow> homeProps baked k))
      else
        let r = compositeNumeric baked acc k (numOf (sv k))
        in if isNaN r then map_option VNum (homeNum baked k) else Some (VNum r))"

text \<open>
  What the final loop does with a key, decided by the tests of the source in their order:
  it skips the three keys composed separately, folds a layout key into the translation,
  appends a transform entry, writes an entry of a shadow offset, or writes the key itself.
\<close>

datatype keyKind = KSkip | KLayoutX | KLayoutY | KTransform | KShadow | KPlain

definition keyKind :: "bakedResult \<Rightarrow> string \<Rightarrow> keyKind" where
  "keyKind baked k =
     (if k = ''worldX'' \<or> k = ''worldY'' \<or> k = ''opacity'' then KSkip
      else if k \<notin> set (colorKeys baked) \<and> (k = ''left'' \<or> k = ''marginLeft'') then KLayoutX
      else if k \<notin> set (colorKeys baked) \<and> (k = ''top'' \<or> k = ''marginTop'') then KLayoutY
      else if startsWith k ''_tr_'' then KTransform
      else if k = ''shadowOffsetWidth'' \<or> k = ''shadowOffsetHeight''
              \<or> k = ''textShadowOffsetWidth'' \<or> k = ''textShadowOffsetHeight'' then KShadow
      else KPlain)"

text \<open>The dotted name of the entry of a shadow offset that a shadow key addresses.\<close>

definition shadowTarget :: "string \<Rightarrow> string" where
  "shadowTarget k =
     (if startsWith k ''shadowOffset'' then ''shadowOffset'' else ''textShadowOffset'')
     @ ''.'' @ (if endsWith k ''Width'' then ''width'' else ''height'')"

definition buildKey :: "bakedResult \<Rightarrow> (string \<rightharpoonup> propval) \<Rightarrow> eventAcc \<Rightarrow> string \<Rightarrow> build \<Rightarrow> build" where
  "buildKey baked sv acc k b =
     (let res = keyResult baked sv acc k in
      case keyKind baked k of
        KSkip \<Rightarrow> b
      | KLayoutX \<Rightarrow>
          b\<lparr>finalX := jadd (finalX b) (jsub (nanIfAbsent (numOf res)) (orElse (homeNum baked k) (Fin 0)))\<rparr>
      | KLayoutY \<Rightarrow>
          b\<lparr>finalY := jadd (finalY b) (jsub (nanIfAbsent (numOf res)) (orElse (homeNum baked k) (Fin 0)))\<rparr>
      | KTransform \<Rightarrow>
          let tName = drop 4 k;
              tVal = (if isRotate tName then Some (VStr (valueToString res @ ''deg'')) else res)
          in b\<lparr>btransform := btransform b @ [(tName, tVal)]\<rparr>
      | KShadow \<Rightarrow> b\<lparr>bprops := (bprops b)(shadowTarget k \<mapsto> res)\<rparr>
      | KPlain \<Rightarrow> b\<lparr>bprops := (bprops b)(k \<mapsto> res)\<rparr>)"

text \<open>The context of a frame, from the two lane lookups.\<close>

definition frameContext :: "bakedResult \<Rightarrow> dims \<Rightarrow> jsnum \<Rightarrow> jsnum \<Rightarrow> laneInfo \<Rightarrow> laneInfo \<Rightarrow> frameCtx" where
  "frameContext baked d cameraX cameraY lH lV =
     (let viewportSize = width d;
          nearH = jlt (ldist lH) viewportSize;
          nearV = jlt (ldist lV) viewportSize;
          hW = (if nearV
                then (if nearH then jdiv (ldist lV) (jadd (jadd (ldist lH) (ldist lV)) (Fin 0.001)) else Fin 0)
                else Fin 1)
      in \<lparr>cx = cameraX, cy = cameraY, laneH = lH, laneV = lV,
          isNearH = nearH, isNearV = nearV, hWeight = hW,
          segX = getSegmentInfo cameraX (uniqueX baked),
          segY = getSegmentInfo cameraY (uniqueY baked)\<rparr>)"

text \<open>The composition phase: the style built from the spatial and the event results.\<close>

definition composeStyle ::
  "bakedResult \<Rightarrow> dims \<Rightarrow> (string \<rightharpoonup> propval) \<Rightarrow> eventAcc \<Rightarrow> jsnum \<Rightarrow> jsnum \<Rightarrow> astyle" where
  "composeStyle baked d sv acc cameraX cameraY =
     (let props1 = (map_option Some \<circ> baseRest baked)
                     (''position'' \<mapsto> Some (VStr ''absolute''),
                      ''width'' \<mapsto> (case baseRest baked ''width'' of Some v \<Rightarrow> Some v | None \<Rightarrow> Some (VNum (width d))),
                      ''height'' \<mapsto> (case baseRest baked ''height'' of Some v \<Rightarrow> Some v | None \<Rightarrow> Some (VNum (height d))),
                      ''left'' \<mapsto> Some (VNum (Fin 0)),
                      ''top'' \<mapsto> Some (VNum (Fin 0)));
          fX = compositeNumeric baked acc ''worldX'' (Some (orElse (numOf (sv ''worldX'')) (Fin 0)));
          fY = compositeNumeric baked acc ''worldY'' (Some (orElse (numOf (sv ''worldY'')) (Fin 0)));
          finalOp = jmax (Fin 0) (jmin (Fin 1)
                      (compositeNumeric baked acc ''opacity'' (Some (orElse (numOf (sv ''opacity'')) (Fin 1)))));
          b = fold (buildKey baked sv acc) (uniq [] (numericKeys baked @ colorKeys baked))
                \<lparr>finalX = fX, finalY = fY, bprops = props1, btransform = []\<rparr>;
          sx = (if truthy cameraX then cameraX else Fin 0);
          sy = (if truthy cameraY then cameraY else Fin 0);
          tx = jsub (finalX b) sx;
          ty = jsub (finalY b) sy
      in \<lparr>props = (bprops b)(''opacity'' \<mapsto> Some (VNum finalOp)),
          transform = Some ([(''translateX'', Some (VNum (if isNaN tx then Fin 0 else tx))),
                             (''translateY'', Some (VNum (if isNaN ty then Fin 0 else ty)))]
                            @ btransform b
                            @ map (\<lambda>(n, v). (n, Some v)) (baseTransform baked))\<rparr>)"

text \<open>
  The evaluator. \<open>events\<close> holds the current value of every driver the provider knows,
  the camera under the names \<^verbatim>\<open>x\<close> and \<^verbatim>\<open>y\<close>; \<open>baked\<close> is \<open>None\<close> while the component
  is not baked.
\<close>

definition animatedStyle ::
  "bakedResult option \<Rightarrow> dims \<Rightarrow> bool \<Rightarrow> (string \<rightharpoonup> jsnum) \<Rightarrow> evalError + astyle" where
  "animatedStyle bakedOpt d isSingleRowVal events =
     (case (bakedOpt, events ''x'', events ''y'') of
        (Some baked, Some cameraX, Some cameraY) \<Rightarrow>
          let thresholdX = jmul (width d) (Fin 1.5);
              thresholdY = jmul (height d) (Fin 1.5);
              isVisibleX = visibleOn cameraX (homeX baked) (uniqueX baked) thresholdX;
              isVisibleY = visibleOn cameraY (homeY baked) (uniqueY baked) thresholdY
          in if \<not> isVisibleX \<or> \<not> isVisibleY then Inr invisible
             else if jle (width d) (Fin 0) \<or> jle (height d) (Fin 0) \<or> isNaN (width d) \<or> isNaN (height d)
             then Inr invisible
             else
               let presence = presenceOf baked d isSingleRowVal cameraX cameraY
               in (case (getLaneInfo (bakedH baked) cameraY, getLaneInfo (bakedV baked) cameraX) of
                     (Some lH, Some lV) \<Rightarrow>
                       let c = frameContext baked d cameraX cameraY lH lV
                       in if \<not> isNearH c \<and> \<not> isNearV c then Inr invisible
                          else (case eventPhase baked events presence of
                                  Inl e \<Rightarrow> Inl e
                                | Inr acc \<Rightarrow> Inr (composeStyle baked d (spatialVals baked c) acc cameraX cameraY))
                   | _ \<Rightarrow> Inr invisible)
      | _ \<Rightarrow> Inr invisible)"

subsection \<open>Vocabulary for statements about the evaluator\<close>






section \<open>Example inputs\<close>

text \<open>Three pages in a row, 400 by 800, as in the configuration tests of the repository.\<close>

definition cfg0 :: config where
  "cfg0 = \<lparr>layout = [[1, 1, 1]], defaultPage = 0,
            pageMap = [''WARDROBE'' \<mapsto> 0, ''SHELVES'' \<mapsto> 1, ''ROOM'' \<mapsto> 2],
            rowOverlaps = [], colOverlaps = [Fin 0, Fin 0]\<rparr>"

definition dims0 :: dims where
  "dims0 = \<lparr>width = Fin 400, height = Fin 800, offsetX = Fin 0, offsetY = Fin 0\<rparr>"




text \<open>Three pages in a column, and a camera resting on the middle page of either grid.\<close>

definition cfgV :: config where
  "cfgV = \<lparr>layout = [[1], [1], [1]], defaultPage = 0, pageMap = Map.empty,
            rowOverlaps = [Fin 0, Fin 0], colOverlaps = []\<rparr>"

definition restAt :: "real \<Rightarrow> real \<Rightarrow> gstate" where
  "restAt x0 y0 = \<lparr>g_x = Fin x0, g_y = Fin y0, g_startX = Fin x0, g_startY = Fin y0,
                     g_isSnapping = False, g_activeAxis = 0, g_wasDisabled = False\<rparr>"

definition pan :: "real \<Rightarrow> real \<Rightarrow> gestureEvent" where
  "pan tx ty = \<lparr>translationX = Fin tx, translationY = Fin ty, velocityX = Fin 0, velocityY = Fin 0\<rparr>"

definition locked :: "int \<Rightarrow> shared" where
  "locked m = \<lparr>sh_lockMask = Some m, sh_gestureEnabled = Some True, sh_lastTargetId = None\<rparr>"

text \<open>A pan of 250 pixels to the left, begun at rest on the middle page of the row.\<close>

definition swiped :: gstate where
  "swiped = onUpdate (generateGesture cfg0 dims0 True) (locked 0) (pan (- 250) 0) (onBegin (restAt 400 0))"

text \<open>
  The baked result of a component on page 0 of the row, with local offset \<open>(0, 0)\<close>, base
  style \<^verbatim>\<open>{ opacity: op, borderRadius: 0 }\<close> and two frames on the event \<^verbatim>\<open>scrollY\<close>:
  \<^verbatim>\<open>{ opacity: a, borderRadius: 0 }\<close> at value 0 and \<^verbatim>\<open>{ opacity: b, borderRadius: 20 }\<close>
  at value 100. It has no spatial frame, so its grid is the single home cell and every
  spatial lane is constant.
\<close>

definition bakedScroll :: "real \<Rightarrow> real \<Rightarrow> real \<Rightarrow> bakedResult" where
  "bakedScroll op a b =
     \<lparr>homeX = Fin 0, homeY = Fin 0, localX = Fin 0, localY = Fin 0,
      bakedH = [\<lparr>fixed = Fin 0,
                 values = [[Some (VNum (Fin 0))], [Some (VNum (Fin 0))], [Some (VNum (Fin op))], [Some (VNum (Fin 0))]],
                 constFlags = [True, True, True, True]\<rparr>],
      bakedV = [\<lparr>fixed = Fin 0,
                 values = [[Some (VNum (Fin 0))], [Some (VNum (Fin 0))], [Some (VNum (Fin op))], [Some (VNum (Fin 0))]],
                 constFlags = [True, True, True, True]\<rparr>],
      bakedCH = [\<lparr>fixed = Fin 0, values = [], constFlags = []\<rparr>],
      bakedCV = [\<lparr>fixed = Fin 0, values = [], constFlags = []\<rparr>],
      bakedEventLanes = [(''scrollY'', \<lparr>ev_values = [Fin 0, Fin 100],
                                          ev_outputRanges = [[Some (VNum (Fin a)), Some (VNum (Fin b))],
                                                             [Some (VNum (Fin 0)), Some (VNum (Fin 20))]],
                                          ev_keys = [''opacity'', ''borderRadius''], ev_persistent = False\<rparr>)],
      uniqueX = [Fin 0], uniqueY = [Fin 0],
      numericKeys = [''worldX'', ''worldY'', ''opacity'', ''borderRadius''], colorKeys = [],
      baseRest = [''opacity'' \<mapsto> VNum (Fin op), ''borderRadius'' \<mapsto> VNum (Fin 0)], baseTransform = [],
      homeProps = [''worldX'' \<mapsto> VNum (Fin 0), ''worldY'' \<mapsto> VNum (Fin 0), ''opacity'' \<mapsto> VNum (Fin op),
                   ''borderRadius'' \<mapsto> VNum (Fin 0)]\<rparr>"

text \<open>The camera at \<open>(x, y)\<close> and the driver \<^verbatim>\<open>scrollY\<close> at \<open>v\<close>.\<close>

definition drivers :: "jsnum \<Rightarrow> jsnum \<Rightarrow> jsnum \<Rightarrow> string \<rightharpoonup> jsnum" where
  "drivers x0 y0 v = [''x'' \<mapsto> x0, ''y'' \<mapsto> y0, ''scrollY'' \<mapsto> v]"


section \<open>Basic facts about numbers\<close>

lemma jle_NaN_right [simp]: "jle a NaN = False"
  by (cases a) simp_all

lemma jlt_NaN_right [simp]: "jlt a NaN = False"
  by (cases a) simp_all

lemma jadd_NaN_right [simp]: "jadd a NaN = NaN"
  by (cases a) simp_all

section \<open>Segment lookup stays inside the coordinate array\<close>






section \<open>Registration of keyframes\<close>

lemma or_zero_not_NaN [simp]: "or_zero v \<noteq> NaN"
  by (auto simp: or_zero_def truthy_def split: option.splits)

lemma jlt_jsub_zero: "a \<noteq> NaN \<Longrightarrow> b \<noteq> NaN \<Longrightarrow> jlt (jsub a b) (Fin 0) = jlt a b"
  by (cases a; cases b) (auto simp: jsub_def)

lemma not_jlt_iff_jle: "a \<noteq> NaN \<Longrightarrow> b \<noteq> NaN \<Longrightarrow> (\<not> jlt a b) = jle b a"
  by (cases a; cases b) auto

lemma jlt_imp_jle: "jlt a b \<Longrightarrow> jle a b"
  by (cases a; cases b) auto

lemma jle_trans: "jle a b \<Longrightarrow> jle b c \<Longrightarrow> jle a c"
  by (cases a; cases b; cases c) auto

lemma set_insertLane [simp]: "set (insertLane x ys) = insert x (set ys)"
  by (induction ys) auto

lemma mset_insertLane [simp]: "mset (insertLane x ys) = add_mset x (mset ys)"
  by (induction ys) auto

lemma sortKey_cmp: "jlt (laneCmp x y) (Fin 0) = jlt (sortKey x) (sortKey y)"
  by (simp add: laneCmp_def sortKey_def jlt_jsub_zero)

lemma laneSorted_insertLane: "laneSorted ys \<Longrightarrow> laneSorted (insertLane x ys)"
proof (induction ys)
  case Nil
  then show ?case by (simp add: laneSorted_def)
next
  case (Cons y ys)
  show ?case
  proof (cases "jlt (sortKey x) (sortKey y)")
    case True
    then have "jle (sortKey x) (sortKey y)" by (rule jlt_imp_jle)
    moreover have "\<forall>z\<in>set ys. jle (sortKey y) (sortKey z)"
      using Cons.prems by (simp add: laneSorted_def)
    ultimately have "\<forall>z\<in>set (y # ys). jle (sortKey x) (sortKey z)"
      by (auto intro: jle_trans)
    then show ?thesis using True Cons.prems by (simp add: laneSorted_def sortKey_cmp)
  next
    case False
    then have "jle (sortKey y) (sortKey x)"
      by (simp add: not_jlt_iff_jle sortKey_def)
    then show ?thesis using False Cons by (auto simp: laneSorted_def sortKey_cmp)
  qed
qed

lemma sortLane_foldl:
  "mset (foldl (\<lambda>acc x. insertLane x acc) acc xs) = mset acc + mset xs \<and>
   (laneSorted acc \<longrightarrow> laneSorted (foldl (\<lambda>acc x. insertLane x acc) acc xs))"
  by (induction xs arbitrary: acc) (auto simp: laneSorted_insertLane)

lemma mset_sortLane [simp]: "mset (sortLane xs) = mset xs"
  using sortLane_foldl [of "[]" xs] by (simp add: sortLane_def)







lemma cfgPageOffset_PNum_resolve [simp]:
  "cfgPageOffset cfg (PNum (resolvePageId cfg p)) d = cfgPageOffset cfg p d"
  by (simp add: cfgPageOffset_def resolvePageId_def)










text \<open>The keys \<^verbatim>\<open>f_i\<close> of an array of frames are pairwise distinct.\<close>

lemma showNat_nonempty [simp]: "showNat n \<noteq> []"
  by (subst showNat.simps) simp

lemma digitChar_inj: "a < 10 \<Longrightarrow> b < 10 \<Longrightarrow> digitChar a = digitChar b \<Longrightarrow> a = b"
  unfolding digitChar_def by (subst (asm) nth_eq_iff_index_eq) simp_all

lemma showNat_inj: "showNat n = showNat m \<Longrightarrow> n = m"
proof (induction n arbitrary: m rule: showNat.induct)
  case (1 n)
  show ?case
  proof (cases "n < 10")
    case True
    then have n: "showNat n = [digitChar n]" by (subst showNat.simps) simp
    show ?thesis
    proof (cases "m < 10")
      case mt: True
      then have "showNat m = [digitChar m]" by (subst showNat.simps) simp
      then show ?thesis using n "1.prems" True mt by (auto dest: digitChar_inj)
    next
      case False
      then have "showNat m = showNat (m div 10) @ [digitChar (m mod 10)]" by (subst showNat.simps) simp
      then show ?thesis using n "1.prems" showNat_nonempty [of "m div 10"] by auto
    qed
  next
    case False
    then have n: "showNat n = showNat (n div 10) @ [digitChar (n mod 10)]" by (subst showNat.simps) simp
    show ?thesis
    proof (cases "m < 10")
      case True
      then have "showNat m = [digitChar m]" by (subst showNat.simps) simp
      then show ?thesis using n "1.prems" showNat_nonempty [of "n div 10"] by auto
    next
      case mf: False
      then have m: "showNat m = showNat (m div 10) @ [digitChar (m mod 10)]" by (subst showNat.simps) simp
      from n m "1.prems" have a: "showNat (n div 10) = showNat (m div 10)"
        and b: "digitChar (n mod 10) = digitChar (m mod 10)" by auto
      from "1.IH" [OF False a] have "n div 10 = m div 10" .
      moreover from b have "n mod 10 = m mod 10" by (intro digitChar_inj) simp_all
      ultimately show ?thesis by (metis div_mult_mod_eq)
    qed
  qed
qed

lemma kfEntries_array_distinct: "distinct (map fst (kfEntries (Some (KfArray fs))))"
proof -
  have "map fst (kfEntries (Some (KfArray fs))) = map (\<lambda>i. ''f_'' @ showNat i) [0 ..< length fs]"
  proof -
    have "map fst (kfEntries (Some (KfArray fs)))
          = map (\<lambda>x. ''f_'' @ showNat (fst x)) (zip [0 ..< length fs] fs)"
      by (simp add: kfEntries_def enumerate_eq_zip comp_def case_prod_unfold)
    also have "\<dots> = map (\<lambda>i. ''f_'' @ showNat i) (map fst (zip [0 ..< length fs] fs))"
      by (simp only: map_map comp_def)
    also have "map fst (zip [0 ..< length fs] fs) = [0 ..< length fs]"
      by (rule map_fst_zip) simp
    finally show ?thesis .
  qed
  moreover have "inj (\<lambda>i. ''f_'' @ showNat i)"
    by (auto simp: inj_def dest: showNat_inj)
  then have "inj_on (\<lambda>i. ''f_'' @ showNat i) (set [0 ..< length fs])"
    by (rule inj_on_subset) simp
  ultimately show ?thesis by (simp add: distinct_map)
qed


section \<open>The gesture state machine\<close>

lemmas math_defs = getPages_def nth_opt_def getWorldBounds_def getPageOffset_def pageIdToMatrixPos_def
  rowLengthOf_def calculateAxisOffset_def or_zero_def truthy_def jsub_def jmin_def jmax_def Let_def upt_rec

lemma envV: "generateGesture cfgV dims0 True =
  \<lparr>env_bounds = \<lparr>minX = Fin 0, maxX = Fin 0, minY = Fin 0, maxY = Fin 1600\<rparr>,
   env_isSingleRow = False, env_screenWidth = Fin 400, env_screenHeight = Fin 800,
   env_snapPoints = [\<lparr>sp_id = 0, sp_x = Fin 0, sp_y = Fin 0, sp_row = 0, sp_col = 0\<rparr>,
                     \<lparr>sp_id = 1, sp_x = Fin 0, sp_y = Fin 800, sp_row = 1, sp_col = 0\<rparr>,
                     \<lparr>sp_id = 2, sp_x = Fin 0, sp_y = Fin 1600, sp_row = 2, sp_col = 0\<rparr>],
   env_pageMap = Map.empty, env_onPageChange = True\<rparr>"
  by (simp add: generateGesture_def cfgV_def dims0_def math_defs)

lemma env0: "generateGesture cfg0 dims0 True =
  \<lparr>env_bounds = \<lparr>minX = Fin 0, maxX = Fin 800, minY = Fin 0, maxY = Fin 0\<rparr>,
   env_isSingleRow = True, env_screenWidth = Fin 400, env_screenHeight = Fin 800,
   env_snapPoints = [\<lparr>sp_id = 0, sp_x = Fin 0, sp_y = Fin 0, sp_row = 0, sp_col = 0\<rparr>,
                     \<lparr>sp_id = 1, sp_x = Fin 400, sp_y = Fin 0, sp_row = 0, sp_col = 1\<rparr>,
                     \<lparr>sp_id = 2, sp_x = Fin 800, sp_y = Fin 0, sp_row = 0, sp_col = 2\<rparr>],
   env_pageMap = pageMap cfg0, env_onPageChange = True\<rparr>"
  by (simp add: generateGesture_def cfg0_def dims0_def math_defs)

lemmas upd_defs = onUpdate_def maskBit_def resist_def RESISTANCE_def restAt_def pan_def locked_def
  jgt_def jge_def jsub_def Let_def

text \<open>
  Claim C1. The claim is that each of the four mask bits (1 left, 2 right, 4 up, 8 down)
  blocks exactly its own pan direction. The update handler reads only two bits, as axis
  locks: bit 1 blocks the horizontal axis in both directions and bit 2 the vertical axis in
  both directions; bits 4 and 8 are never read. Evaluated on a column of three pages with
  the camera on the middle page (mask 4, 8 and 2), and on a row of three pages (mask 2
  and 1): with mask 4 or 8 the camera follows a vertical pan either way; mask 2 blocks both
  vertical directions and no horizontal one; mask 1 blocks both horizontal directions.
\<close>

theorem lock_mask_axis_only:
  "g_y (onUpdate (generateGesture cfgV dims0 True) (locked 4) (pan 0 50) (restAt 0 800)) = Fin 750 \<and>
   g_y (onUpdate (generateGesture cfgV dims0 True) (locked 4) (pan 0 (- 50)) (restAt 0 800)) = Fin 850 \<and>
   g_y (onUpdate (generateGesture cfgV dims0 True) (locked 8) (pan 0 50) (restAt 0 800)) = Fin 750 \<and>
   g_y (onUpdate (generateGesture cfgV dims0 True) (locked 8) (pan 0 (- 50)) (restAt 0 800)) = Fin 850 \<and>
   g_y (onUpdate (generateGesture cfgV dims0 True) (locked 2) (pan 0 50) (restAt 0 800)) = Fin 800 \<and>
   g_y (onUpdate (generateGesture cfgV dims0 True) (locked 2) (pan 0 (- 50)) (restAt 0 800)) = Fin 800 \<and>
   g_x (onUpdate (generateGesture cfg0 dims0 True) (locked 2) (pan 50 0) (restAt 400 0)) = Fin 350 \<and>
   g_x (onUpdate (generateGesture cfg0 dims0 True) (locked 2) (pan (- 50) 0) (restAt 400 0)) = Fin 450 \<and>
   g_x (onUpdate (generateGesture cfg0 dims0 True) (locked 1) (pan 50 0) (restAt 400 0)) = Fin 400 \<and>
   g_x (onUpdate (generateGesture cfg0 dims0 True) (locked 1) (pan (- 50) 0) (restAt 400 0)) = Fin 400"
  unfolding envV env0 by (simp add: upd_defs)

lemma findAnchor_fold_cases:
  "foldl (\<lambda>a snp.
        let dist = distTo sx sy snp
        in if jlt dist (minStartDist a)
           then \<lparr>anchorRow = sp_row snp, anchorCol = sp_col snp, anchorId = sp_id snp, minStartDist = dist\<rparr>
           else a) a0 sps = a \<Longrightarrow>
   a = a0 \<or> (\<exists>snp \<in> set sps. anchorRow a = sp_row snp \<and> anchorCol a = sp_col snp \<and> anchorId a = sp_id snp)"
proof (induction sps arbitrary: a0)
  case Nil
  then show ?case by simp
next
  case (Cons s sps)
  let ?a1 = "(let dist = distTo sx sy s
        in if jlt dist (minStartDist a0)
           then \<lparr>anchorRow = sp_row s, anchorCol = sp_col s, anchorId = sp_id s, minStartDist = dist\<rparr>
           else a0)"
  from Cons.prems Cons.IH [of ?a1]
  have "a = ?a1 \<or> (\<exists>snp \<in> set sps. anchorRow a = sp_row snp \<and> anchorCol a = sp_col snp \<and> anchorId a = sp_id snp)"
    by simp
  then show ?case by (auto simp: Let_def split: if_splits)
qed

lemma findAnchor_found:
  assumes "jlt (minStartDist (findAnchor sps sx sy)) bound"
  shows "\<exists>snp \<in> set sps. anchorRow (findAnchor sps sx sy) = sp_row snp \<and>
          anchorCol (findAnchor sps sx sy) = sp_col snp \<and> anchorId (findAnchor sps sx sy) = sp_id snp"
proof -
  from findAnchor_fold_cases [OF refl, of sx sy "\<lparr>anchorRow = 0, anchorCol = 0, anchorId = - 1, minStartDist = PInf\<rparr>" sps]
  have "findAnchor sps sx sy = \<lparr>anchorRow = 0, anchorCol = 0, anchorId = - 1, minStartDist = PInf\<rparr> \<or>
        (\<exists>snp \<in> set sps. anchorRow (findAnchor sps sx sy) = sp_row snp \<and>
          anchorCol (findAnchor sps sx sy) = sp_col snp \<and> anchorId (findAnchor sps sx sy) = sp_id snp)"
    unfolding findAnchor_def .
  moreover have "findAnchor sps sx sy \<noteq> \<lparr>anchorRow = 0, anchorCol = 0, anchorId = - 1, minStartDist = PInf\<rparr>"
    using assms by (cases bound) auto
  ultimately show ?thesis by blast
qed

lemma getPages_nonneg: "p \<in> set (getPages cfg) \<Longrightarrow> 0 \<le> p"
  by (auto simp: getPages_def Let_def split: if_splits)

lemma snapPoints_wf:
  assumes "snp \<in> set (env_snapPoints (generateGesture cfg d cb))"
  shows "0 \<le> sp_id snp \<and> sp_col snp = sp_id snp mod int (rowLengthOf (layout cfg))
         \<and> sp_row snp = sp_id snp div int (rowLengthOf (layout cfg))"
  using assms by (auto simp: generateGesture_def Let_def getPages_nonneg)

lemma find_SomeD: "find P xs = Some x \<Longrightarrow> x \<in> set xs \<and> P x"
  by (auto simp: find_Some_iff)

text \<open>
  Claim C6. On a 400-wide viewport, when a pan ends with \<open>translationX = -250\<close> and the
  horizontal axis locked, the gesture start lies within the anchor-proximity threshold
  (30% of the width) of a snap point, and the grid has a page one column to the right of
  the anchor page (whose offset is not the sentinel \<open>-1\<close>): the resolved target is that page,
  it differs from the anchor, \<^verbatim>\<open>onEnd\<close> emits exactly one page-change notification,
  carrying that page's id, and \<^verbatim>\<open>onFinalize\<close> never emits one. The velocity plays no role
  once the translation exceeds the distance threshold, so none is assumed.
\<close>

theorem pan_left_snaps_right:
  assumes w: "width d = Fin 400"
    and tx: "translationX ev = Fin (- 250)"
    and ax: "g_activeAxis st = 1"
    and en: "sh_gestureEnabled sh \<noteq> Some False"
    and near: "jlt (minStartDist (findAnchor (env_snapPoints (generateGesture cfg d True)) (g_startX st) (g_startY st)))
                   (jmul (Fin 400) (Fin 0.3))"
    and nb: "find (\<lambda>snp. sp_row snp = anchorRow (findAnchor (env_snapPoints (generateGesture cfg d True)) (g_startX st) (g_startY st))
                        \<and> sp_col snp = anchorCol (findAnchor (env_snapPoints (generateGesture cfg d True)) (g_startX st) (g_startY st)) + 1)
               (env_snapPoints (generateGesture cfg d True)) = Some n"
    and nx: "sp_x n \<noteq> Fin (- 1)"
  shows "snd (resolveTarget (generateGesture cfg d True) ev st) = toTarget n \<and>
         targetId (toTarget n) \<noteq> anchorId (fst (resolveTarget (generateGesture cfg d True) ev st)) \<and>
         filter (\<lambda>e. \<exists>p. e = PageChange p) (snd (onEnd (generateGesture cfg d True) sh ev st)) = [PageChange (sp_id n)] \<and>
         (\<forall>sh' success st' p. PageChange p \<notin> set (snd (onFinalize (generateGesture cfg d True) sh' success st')))"
proof -
  let ?env = "generateGesture cfg d True"
  let ?a = "findAnchor (env_snapPoints ?env) (g_startX st) (g_startY st)"
  have sw: "env_screenWidth ?env = Fin 400" using w by (simp add: generateGesture_def Let_def)
  from find_SomeD [OF nb] have n_in: "n \<in> set (env_snapPoints ?env)"
    and n_row: "sp_row n = anchorRow ?a" and n_col: "sp_col n = anchorCol ?a + 1" by auto
  from snapPoints_wf [OF n_in] have n_id: "0 \<le> sp_id n"
    and n_colid: "sp_col n = sp_id n mod int (rowLengthOf (layout cfg))" by auto
  from findAnchor_found [OF near] obtain s0 where s0: "s0 \<in> set (env_snapPoints ?env)"
    "anchorCol ?a = sp_col s0" "anchorId ?a = sp_id s0" by blast
  from snapPoints_wf [OF s0(1)] have "sp_col s0 = sp_id s0 mod int (rowLengthOf (layout cfg))" by simp
  then have ne: "sp_id n \<noteq> anchorId ?a" using n_col n_colid s0 by auto
  have intentRight: "jlt (translationX ev) (jneg (jmul (env_screenWidth ?env) (Fin 0.08)))"
    by (simp add: tx sw)
  have sf: "jlt (minStartDist ?a) (jmul (env_screenWidth ?env) (Fin 0.3))"
    using near by (simp add: sw)
  have rt: "resolveTarget ?env ev st = (?a, toTarget n)"
    unfolding resolveTarget_def Let_def
    using intentRight sf ax nb nx n_id
    by (simp add: toTarget_def jeq_def)
  have ps: "env_snapPoints ?env \<noteq> []" using n_in by auto
  have cb: "env_onPageChange ?env" by (simp add: generateGesture_def Let_def)
  have oe: "filter (\<lambda>e. \<exists>p. e = PageChange p) (snd (onEnd ?env sh ev st)) = [PageChange (sp_id n)]"
    unfolding onEnd_def Let_def using en ps rt ne n_id cb
    by (simp add: toTarget_def triggerPageChange_def)
  have fin: "\<forall>sh' success st' p. PageChange p \<notin> set (snd (onFinalize ?env sh' success st'))"
    by (auto simp: onFinalize_def Let_def split: option.splits)
  show ?thesis using rt ne oe fin by (simp add: toTarget_def)
qed

lemma swiped_eq: "swiped = \<lparr>g_x = Fin 650, g_y = Fin 0, g_startX = Fin 400, g_startY = Fin 0,
                     g_isSnapping = True, g_activeAxis = 1, g_wasDisabled = False\<rparr>"
  unfolding swiped_def env0 by (simp add: upd_defs onBegin_def)

lemma anchor_swiped:
  "findAnchor (env_snapPoints (generateGesture cfg0 dims0 True)) (g_startX swiped) (g_startY swiped)
   = \<lparr>anchorRow = 0, anchorCol = 1, anchorId = 1, minStartDist = Fin 0\<rparr>"
  unfolding env0 swiped_eq by (simp add: findAnchor_def distTo_def jsquare_def jsub_def Let_def)

theorem pan_left_snaps_right_witness:
  "width dims0 = Fin 400 \<and> translationX (pan (- 250) 0) = Fin (- 250) \<and> g_activeAxis swiped = 1 \<and>
   sh_gestureEnabled (locked 0) \<noteq> Some False \<and>
   anchorId (findAnchor (env_snapPoints (generateGesture cfg0 dims0 True)) (g_startX swiped) (g_startY swiped)) = 1 \<and>
   jlt (minStartDist (findAnchor (env_snapPoints (generateGesture cfg0 dims0 True)) (g_startX swiped) (g_startY swiped)))
       (jmul (Fin 400) (Fin 0.3)) \<and>
   snd (resolveTarget (generateGesture cfg0 dims0 True) (pan (- 250) 0) swiped)
      = \<lparr>targetX = Fin 800, targetY = Fin 0, targetId = 2\<rparr> \<and>
   filter (\<lambda>e. \<exists>p. e = PageChange p) (snd (onEnd (generateGesture cfg0 dims0 True) (locked 0) (pan (- 250) 0) swiped))
      = [PageChange 2]"
proof -
  let ?n = "\<lparr>sp_id = 2, sp_x = Fin 800, sp_y = Fin 0, sp_row = 0, sp_col = 2\<rparr>"
  have w: "width dims0 = Fin 400" by (simp add: dims0_def)
  have tx: "translationX (pan (- 250) 0) = Fin (- 250)" by (simp add: pan_def)
  have ax: "g_activeAxis swiped = 1" by (simp add: swiped_eq)
  have en: "sh_gestureEnabled (locked 0) \<noteq> Some False" by (simp add: locked_def)
  have near: "jlt (minStartDist (findAnchor (env_snapPoints (generateGesture cfg0 dims0 True)) (g_startX swiped) (g_startY swiped)))
       (jmul (Fin 400) (Fin 0.3))"
    by (simp add: anchor_swiped)
  have nb: "find (\<lambda>snp. sp_row snp = anchorRow (findAnchor (env_snapPoints (generateGesture cfg0 dims0 True)) (g_startX swiped) (g_startY swiped))
                        \<and> sp_col snp = anchorCol (findAnchor (env_snapPoints (generateGesture cfg0 dims0 True)) (g_startX swiped) (g_startY swiped)) + 1)
               (env_snapPoints (generateGesture cfg0 dims0 True)) = Some ?n"
    unfolding anchor_swiped by (simp add: env0)
  have nx: "sp_x ?n \<noteq> Fin (- 1)" by simp
  from pan_left_snaps_right [OF w tx ax en near nb nx]
  show ?thesis using w tx ax en near by (simp add: toTarget_def anchor_swiped)
qed



section \<open>The frame evaluator: visibility\<close>

lemma jgt_not_jle: "jgt a b \<Longrightarrow> \<not> jle a b"
  by (cases a; cases b) (auto simp: jgt_def)

lemma jgt_not_jlt: "jgt a b \<Longrightarrow> \<not> jlt a b"
  by (cases a; cases b) (auto simp: jgt_def)

lemma not_visibleOn:
  assumes "jgt (jabs (jsub camera home)) threshold"
    and "\<forall>u \<in> set unique. jgt (jabs (jsub camera u)) threshold"
  shows "\<not> visibleOn camera home unique threshold"
  using assms by (auto simp: visibleOn_def list_ex_iff dest: jgt_not_jle jgt_not_jlt)

text \<open>
  Claim C4. For every baked component and every camera position: if on the x-axis the
  camera's distance from the home x-position and from every coordinate of \<open>uniqueX\<close> (the
  keyframe-declared x-positions) exceeds 1.5 times the viewport width, or the same holds on
  the y-axis with the viewport height, the evaluator returns the style \<^verbatim>\<open>{ opacity: 0 }\<close>.
\<close>

theorem cull_far_camera:
  assumes "events ''x'' = Some cameraX" and "events ''y'' = Some cameraY"
    and "(jgt (jabs (jsub cameraX (homeX baked))) (jmul (width d) (Fin 1.5)) \<and>
          (\<forall>u \<in> set (uniqueX baked). jgt (jabs (jsub cameraX u)) (jmul (width d) (Fin 1.5))))
       \<or> (jgt (jabs (jsub cameraY (homeY baked))) (jmul (height d) (Fin 1.5)) \<and>
          (\<forall>u \<in> set (uniqueY baked). jgt (jabs (jsub cameraY u)) (jmul (height d) (Fin 1.5))))"
  shows "animatedStyle (Some baked) d isSingleRowVal events = Inr invisible \<and>
         props invisible ''opacity'' = Some (Some (VNum (Fin 0)))"
proof -
  have "\<not> visibleOn cameraX (homeX baked) (uniqueX baked) (jmul (width d) (Fin 1.5))
      \<or> \<not> visibleOn cameraY (homeY baked) (uniqueY baked) (jmul (height d) (Fin 1.5))"
    using assms(3) not_visibleOn by blast
  then show ?thesis
    using assms(1,2) by (auto simp: animatedStyle_def Let_def invisible_def)
qed








section \<open>The frame evaluator: event lanes\<close>










section \<open>The evaluator on the example component\<close>

lemma bakedScroll_sel [simp]:
  "homeX (bakedScroll op a b) = Fin 0" "homeY (bakedScroll op a b) = Fin 0"
  "uniqueX (bakedScroll op a b) = [Fin 0]" "uniqueY (bakedScroll op a b) = [Fin 0]"
  "numericKeys (bakedScroll op a b) = [''worldX'', ''worldY'', ''opacity'', ''borderRadius'']"
  "colorKeys (bakedScroll op a b) = []"
  "baseRest (bakedScroll op a b) = [''opacity'' \<mapsto> VNum (Fin op), ''borderRadius'' \<mapsto> VNum (Fin 0)]"
  "baseTransform (bakedScroll op a b) = []"
  "homeProps (bakedScroll op a b) = [''worldX'' \<mapsto> VNum (Fin 0), ''worldY'' \<mapsto> VNum (Fin 0), ''opacity'' \<mapsto> VNum (Fin op),
                   ''borderRadius'' \<mapsto> VNum (Fin 0)]"
  "bakedEventLanes (bakedScroll op a b) = [(''scrollY'', \<lparr>ev_values = [Fin 0, Fin 100],
                                          ev_outputRanges = [[Some (VNum (Fin a)), Some (VNum (Fin b))],
                                                             [Some (VNum (Fin 0)), Some (VNum (Fin 20))]],
                                          ev_keys = [''opacity'', ''borderRadius''], ev_persistent = False\<rparr>)]"
  "bakedH (bakedScroll op a b) = [\<lparr>fixed = Fin 0,
                 values = [[Some (VNum (Fin 0))], [Some (VNum (Fin 0))], [Some (VNum (Fin op))], [Some (VNum (Fin 0))]],
                 constFlags = [True, True, True, True]\<rparr>]"
  "bakedV (bakedScroll op a b) = [\<lparr>fixed = Fin 0,
                 values = [[Some (VNum (Fin 0))], [Some (VNum (Fin 0))], [Some (VNum (Fin op))], [Some (VNum (Fin 0))]],
                 constFlags = [True, True, True, True]\<rparr>]"
  by (simp_all add: bakedScroll_def)

lemma dims0_sel [simp]: "width dims0 = Fin 400" "height dims0 = Fin 800"
  by (simp_all add: dims0_def)

lemma drivers_sel [simp]:
  "drivers x0 y0 v ''x'' = Some x0" "drivers x0 y0 v ''y'' = Some y0" "drivers x0 y0 v ''scrollY'' = Some v"
  by (simp_all add: drivers_def)

theorem cull_far_camera_witness:
  "jgt (jabs (jsub (Fin 700) (homeX (bakedScroll 1 1 0)))) (jmul (width dims0) (Fin 1.5)) \<and>
   uniqueX (bakedScroll 1 1 0) = [Fin 0] \<and>
   jgt (jabs (jsub (Fin 700) (Fin 0))) (jmul (width dims0) (Fin 1.5)) \<and>
   animatedStyle (Some (bakedScroll 1 1 0)) dims0 True (drivers (Fin 700) (Fin 0) (Fin 50)) = Inr invisible"
proof -
  have h: "(jgt (jabs (jsub (Fin 700) (homeX (bakedScroll 1 1 0)))) (jmul (width dims0) (Fin 1.5)) \<and>
          (\<forall>u \<in> set (uniqueX (bakedScroll 1 1 0)). jgt (jabs (jsub (Fin 700) u)) (jmul (width dims0) (Fin 1.5))))
       \<or> (jgt (jabs (jsub (Fin 0) (homeY (bakedScroll 1 1 0)))) (jmul (height dims0) (Fin 1.5)) \<and>
          (\<forall>u \<in> set (uniqueY (bakedScroll 1 1 0)). jgt (jabs (jsub (Fin 0) u)) (jmul (height dims0) (Fin 1.5))))"
    by (simp add: jgt_def jsub_def)
  from cull_far_camera [where events = "drivers (Fin 700) (Fin 0) (Fin 50)" and cameraX = "Fin 700"
      and cameraY = "Fin 0" and baked = "bakedScroll 1 1 0" and d = dims0 and isSingleRowVal = True] h
  show ?thesis by (simp add: jgt_def jsub_def)
qed



end
